theory Spec2Isabelle
  imports Complex_Main "HOL-Library.Log_Nat"
begin

text \<open>
  A model of the weather-derivation pipeline of \<open>script.js\<close>: the PFI calculator, the
  precipitation resolver, the hazard detector, the comparison aggregator with its mock
  counterpart, and the part of \<open>displayResults\<close> that shows or hides the hazard and
  precipitation containers. The file holds two copies of the script; the model follows
  the first one, whose \<open>generateWeekPFI\<close> takes the day names from the dates of the
  response. Numbers are IEEE doubles with every arithmetic result rounded, and day names
  are formatted in the time zone of the browser.
\<close>

section \<open>Numbers and array reads of the script\<close>

text \<open>
  A JavaScript number is an IEEE 754 binary64 value: a finite double, one of the two
  infinities, or \<open>NaN\<close>. A finite double is carried as the real number it denotes. The
  two zeros are one value here: the comparisons, \<open>|| 0\<close>, \<open>Math.abs\<close> and the conversion
  to a string treat \<open>-0\<close> and \<open>0\<close> alike, and the script never divides by a zero.

  A reading that is missing (\<open>undefined\<close>, which is what an array read past the end
  gives) is represented by \<open>NaN\<close>: every operation the script applies to a reading
  (\<open>+\<close>, \<open>-\<close>, \<open>*\<close>, \<open>/\<close>, the four comparisons and \<open>|| 0\<close>) treats \<open>undefined\<close> and \<open>NaN\<close>
  alike. A \<open>null\<close> reading is represented by \<open>Num 0\<close>: the same operations convert
  \<open>null\<close> to 0.
\<close>

datatype jsnum = Num real | PosInf | NegInf | NaN

subsection \<open>Rounding to the nearest double\<close>

text \<open>
  \<open>expo x\<close> is the binary exponent of a nonzero \<open>x\<close>, the integer \<open>e\<close> with
  \<open>2^e \<le> |x| < 2^(e + 1)\<close>, computed from the bit length of the integer part of \<open>|x|\<close>
  or of its reciprocal.
\<close>

definition expo :: "real \<Rightarrow> int" where
  "expo x =
     (if 1 \<le> \<bar>x\<bar> then bitlen \<lfloor>\<bar>x\<bar>\<rfloor> - 1 else - bitlen (\<lceil>1 / \<bar>x\<bar>\<rceil> - 1))"

text \<open>Rounding to the nearest integer, a tie to the even one.\<close>

definition roundEven :: "real \<Rightarrow> int" where
  "roundEven y =
     (let f = \<lfloor>y\<rfloor>; r = y - of_int f
      in if r < 1 / 2 then f else if 1 / 2 < r then f + 1 else if even f then f else f + 1)"

text \<open>
  \<open>fl x\<close> is \<open>x\<close> rounded to 53 significant bits, ties to even, with the spacing of the
  subnormal doubles below \<open>2^(-1022)\<close>; the exponent is not bounded above here.
\<close>

definition fl :: "real \<Rightarrow> real" where
  "fl x =
     (if x = 0 then 0
      else let q = max (expo x) (- 1022) - 52
           in of_int (roundEven (x / 2 powi q)) * 2 powi q)"

text \<open>
  The double that an exact result \<open>x\<close> is stored as: a rounded value of magnitude
  \<open>2^1024\<close> or more overflows to an infinity.
\<close>

definition toDouble :: "real \<Rightarrow> jsnum" where
  "toDouble x =
     (let y = fl x
      in if 2 ^ 1024 \<le> y then PosInf else if y \<le> - (2 ^ 1024) then NegInf else Num y)"

text \<open>The number that a decimal literal of the script denotes, such as \<open>0.02\<close>.\<close>

definition jsLit :: "real \<Rightarrow> jsnum" where
  "jsLit x = toDouble x"

subsection \<open>Arithmetic and comparisons\<close>

fun jsAdd :: "jsnum \<Rightarrow> jsnum \<Rightarrow> jsnum" where
  "jsAdd (Num a) (Num b) = toDouble (a + b)"
| "jsAdd NaN _ = NaN"
| "jsAdd _ NaN = NaN"
| "jsAdd PosInf NegInf = NaN"
| "jsAdd NegInf PosInf = NaN"
| "jsAdd PosInf _ = PosInf"
| "jsAdd _ PosInf = PosInf"
| "jsAdd NegInf _ = NegInf"
| "jsAdd _ NegInf = NegInf"

fun jsSub :: "jsnum \<Rightarrow> jsnum \<Rightarrow> jsnum" where
  "jsSub (Num a) (Num b) = toDouble (a - b)"
| "jsSub NaN _ = NaN"
| "jsSub _ NaN = NaN"
| "jsSub PosInf PosInf = NaN"
| "jsSub NegInf NegInf = NaN"
| "jsSub PosInf _ = PosInf"
| "jsSub _ PosInf = NegInf"
| "jsSub NegInf _ = NegInf"
| "jsSub _ NegInf = PosInf"

fun jsMul :: "jsnum \<Rightarrow> jsnum \<Rightarrow> jsnum" where
  "jsMul (Num a) (Num b) = toDouble (a * b)"
| "jsMul NaN _ = NaN"
| "jsMul _ NaN = NaN"
| "jsMul PosInf (Num b) = (if b = 0 then NaN else if 0 < b then PosInf else NegInf)"
| "jsMul NegInf (Num b) = (if b = 0 then NaN else if 0 < b then NegInf else PosInf)"
| "jsMul (Num a) PosInf = (if a = 0 then NaN else if 0 < a then PosInf else NegInf)"
| "jsMul (Num a) NegInf = (if a = 0 then NaN else if 0 < a then NegInf else PosInf)"
| "jsMul PosInf PosInf = PosInf"
| "jsMul PosInf NegInf = NegInf"
| "jsMul NegInf PosInf = NegInf"
| "jsMul NegInf NegInf = PosInf"

text \<open>The script only ever divides by the constant 2.\<close>

fun jsHalf :: "jsnum \<Rightarrow> jsnum" where
  "jsHalf (Num a) = toDouble (a / 2)"
| "jsHalf PosInf = PosInf"
| "jsHalf NegInf = NegInf"
| "jsHalf NaN = NaN"

text \<open>A comparison with \<open>NaN\<close> on either side is false.\<close>

fun jsLe :: "jsnum \<Rightarrow> jsnum \<Rightarrow> bool" where
  "jsLe (Num a) (Num b) = (a \<le> b)"
| "jsLe NaN _ = False"
| "jsLe _ NaN = False"
| "jsLe NegInf _ = True"
| "jsLe _ PosInf = True"
| "jsLe PosInf _ = False"
| "jsLe _ NegInf = False"

fun jsLt :: "jsnum \<Rightarrow> jsnum \<Rightarrow> bool" where
  "jsLt (Num a) (Num b) = (a < b)"
| "jsLt NaN _ = False"
| "jsLt _ NaN = False"
| "jsLt PosInf _ = False"
| "jsLt _ NegInf = False"
| "jsLt NegInf _ = True"
| "jsLt _ PosInf = True"

definition jsGe :: "jsnum \<Rightarrow> jsnum \<Rightarrow> bool" where
  "jsGe a b = jsLe b a"

definition jsGt :: "jsnum \<Rightarrow> jsnum \<Rightarrow> bool" where
  "jsGt a b = jsLt b a"

text \<open>\<open>x || 0\<close>: the falsy numbers are \<open>0\<close> and \<open>NaN\<close> (and a missing reading).\<close>

fun orZero :: "jsnum \<Rightarrow> jsnum" where
  "orZero (Num a) = (if a = 0 then Num 0 else Num a)"
| "orZero PosInf = PosInf"
| "orZero NegInf = NegInf"
| "orZero NaN = Num 0"

text \<open>
  \<open>Math.round\<close> gives the nearest integer, a half towards plus infinity; the result is
  exact. \<open>Math.abs\<close> is exact as well.
\<close>

fun jsRound :: "jsnum \<Rightarrow> jsnum" where
  "jsRound (Num a) = Num (of_int (round a))"
| "jsRound PosInf = PosInf"
| "jsRound NegInf = NegInf"
| "jsRound NaN = NaN"

fun jsAbs :: "jsnum \<Rightarrow> jsnum" where
  "jsAbs (Num a) = Num \<bar>a\<bar>"
| "jsAbs PosInf = PosInf"
| "jsAbs NegInf = PosInf"
| "jsAbs NaN = NaN"

text \<open>\<open>xs[i]\<close> on an array of readings: past the end the read is \<open>undefined\<close>.\<close>

definition numAt :: "jsnum list \<Rightarrow> nat \<Rightarrow> jsnum" where
  "numAt xs i = (if i < length xs then xs ! i else NaN)"

text \<open>\<open>xs[i]\<close> on an array of objects: \<open>None\<close> is \<open>undefined\<close>.\<close>

definition objAt :: "'a list \<Rightarrow> nat \<Rightarrow> 'a option" where
  "objAt xs i = (if i < length xs then Some (xs ! i) else None)"

text \<open>A number that may be missing, used in arithmetic.\<close>

fun toNumber :: "jsnum option \<Rightarrow> jsnum" where
  "toNumber (Some v) = v"
| "toNumber None = NaN"

section \<open>The API response\<close>

text \<open>
  The daily block of the Open-Meteo response is a record of parallel arrays. A date (a
  date-only ISO string such as \<open>2024-01-15\<close> in the response) is carried as its day
  number, the number of days from 1970-01-01 to that date.
\<close>

record dailyData =
  time :: "int list"
  apparent_temperature_min :: "jsnum list"
  apparent_temperature_max :: "jsnum list"
  cloudcover_mean :: "jsnum list"
  precipitation_probability_max :: "jsnum list"
  precipitation_sum :: "jsnum list"
  windspeed_10m_max :: "jsnum list"
  relative_humidity_2m_mean :: "jsnum list"

record weatherData =
  current_temperature_2m :: jsnum
  daily :: dailyData

section \<open>Precipitation\<close>

datatype precipType = Rain | Snow

record precipData =
  type :: precipType
  probability :: jsnum

text \<open>
  What \<open>getPrecipitationDisplay\<close> and \<open>getHazardDisplay\<close> return. The field \<open>show\<close> of
  the script is called \<open>shown\<close> here; \<open>colorClass\<close> is absent (\<open>None\<close>) in every display
  but that of a hazard.
\<close>

record display =
  icon :: string
  label :: string
  shown :: bool
  colorClass :: "string option"

definition noDisplay :: display where
  "noDisplay = \<lparr>icon = '''', label = '''', shown = False, colorClass = None\<rparr>"

definition materialSymbol :: "string \<Rightarrow> string" where
  \<open>materialSymbol name = ''<span class="material-symbols-sharp">'' @ name @ ''</span>''\<close>

definition determinePrecipitationType :: "jsnum \<Rightarrow> jsnum \<Rightarrow> precipData option" where
  "determinePrecipitationType rainProb snowProb =
     (if jsLe rainProb (Num 30) \<and> jsLe snowProb (Num 30) then None
      else if jsGt rainProb snowProb then Some \<lparr>type = Rain, probability = rainProb\<rparr>
      else Some \<lparr>type = Snow, probability = snowProb\<rparr>)"

definition getPrecipitationDisplay :: "precipData option \<Rightarrow> display" where
  "getPrecipitationDisplay precipitationData =
     (case precipitationData of
        None \<Rightarrow> noDisplay
      | Some p \<Rightarrow>
          (case type p of
             Rain \<Rightarrow>
               \<lparr>icon = materialSymbol ''rainy'',
                label = (if jsGt (probability p) (Num 60) then ''Rain expected''
                         else ''Likely to rain''),
                shown = True, colorClass = None\<rparr>
           | Snow \<Rightarrow>
               \<lparr>icon = materialSymbol ''ac_unit'',
                label = (if jsGt (probability p) (Num 60) then ''Snow expected''
                         else ''Likely to snow''),
                shown = True, colorClass = None\<rparr>))"

section \<open>Hazards\<close>

text \<open>The body of the loop of \<open>detectHazards\<close> for day \<open>i\<close>: a hazard name or \<open>null\<close>.\<close>

definition detectHazardAt :: "dailyData \<Rightarrow> nat \<Rightarrow> string option" where
  "detectHazardAt d i =
     (let tempMax = numAt (apparent_temperature_max d) i;
          tempMin = numAt (apparent_temperature_min d) i;
          humidity = numAt (relative_humidity_2m_mean d) i;
          wind = numAt (windspeed_10m_max d) i;
          precipitation = numAt (precipitation_sum d) i;
          precipProb = numAt (precipitation_probability_max d) i
      in if jsGe tempMax (Num 32) \<and> jsLe humidity (Num 30) \<and> jsGe wind (Num 25)
           then Some ''Fire Risk''
         else if jsGe tempMax (Num 38) then Some ''Extreme Heat''
         else if jsGe precipitation (Num 30) \<and> jsGe precipProb (Num 70)
           then Some ''Heavy Rain''
         else if jsGt precipitation (Num 0) \<and> jsLe tempMin (Num 0) then Some ''Snow/Ice''
         else if jsLe tempMin (Num 0) then Some ''Extreme Cold''
         else if jsGe wind (Num 50) then Some ''Strong Winds''
         else None)"

definition detectHazards :: "weatherData \<Rightarrow> string option list" where
  "detectHazards wd =
     map (detectHazardAt (daily wd)) [0..<length (time (daily wd))]"

definition hazardDisplay :: "string \<Rightarrow> string \<Rightarrow> string \<Rightarrow> display" where
  "hazardDisplay symbol name cls =
     \<lparr>icon = materialSymbol symbol, label = name, shown = True, colorClass = Some cls\<rparr>"

definition getHazardDisplay :: "string option \<Rightarrow> display" where
  "getHazardDisplay hazardType =
     (case hazardType of
        None \<Rightarrow> noDisplay
      | Some h \<Rightarrow>
          if h = ''Fire Risk'' then hazardDisplay ''mode_heat'' ''Fire Risk'' ''hazard-hot''
          else if h = ''Extreme Heat'' then hazardDisplay ''heat'' ''Extreme Heat'' ''hazard-hot''
          else if h = ''Heavy Rain'' then hazardDisplay ''flood'' ''Heavy Rain'' ''hazard-cold''
          else if h = ''Snow/Ice'' then hazardDisplay ''severe_cold'' ''Snow/Ice'' ''hazard-cold''
          else if h = ''Extreme Cold''
            then hazardDisplay ''severe_cold'' ''Extreme Cold'' ''hazard-cold''
          else if h = ''Strong Winds'' then hazardDisplay ''air'' ''Strong Winds'' ''hazard-wind''
          else noDisplay)"

section \<open>The PFI calculator\<close>

record precipPair =
  rain :: jsnum
  snow :: jsnum

text \<open>
  One element of \<open>pfiData\<close>. The functions that read \<open>pfiData\<close> test \<open>date\<close>,
  \<open>typeof pfi === 'number'\<close> and \<open>precipitation\<close> before they use them, so these three
  fields may be missing (\<open>None\<close>); \<open>calculatePFI\<close> always fills them.
\<close>

record pfiEntry =
  date :: "int option"
  pfi :: "jsnum option"
  avgApparentTemp :: jsnum
  cloudcover :: jsnum
  precipitation :: "precipPair option"

text \<open>The body of the loop of \<open>calculatePFI\<close> for day \<open>i\<close>, with \<open>i < daily.time.length\<close>.\<close>

definition calculatePFIAt :: "dailyData \<Rightarrow> nat \<Rightarrow> pfiEntry" where
  "calculatePFIAt d i =
     (let apparentTempMin = numAt (apparent_temperature_min d) i;
          apparentTempMax = numAt (apparent_temperature_max d) i;
          cloud = numAt (cloudcover_mean d) i;
          precipitationProb = orZero (numAt (precipitation_probability_max d) i);
          avgApparent = jsHalf (jsAdd apparentTempMin apparentTempMax);
          cloudAdj = jsMul (jsLit 0.02) (jsSub (Num 50) cloud);
          pfiValue = jsAdd avgApparent cloudAdj;
          avgTemp = jsHalf (jsAdd apparentTempMin apparentTempMax)
      in \<lparr>date = Some (time d ! i),
          pfi = Some pfiValue,
          avgApparentTemp = avgApparent,
          cloudcover = cloud,
          precipitation =
            Some \<lparr>rain = (if jsGt avgTemp (Num 0) then precipitationProb else Num 0),
                  snow = (if jsLe avgTemp (Num 0) then precipitationProb else Num 0)\<rparr>\<rparr>)"

definition calculatePFI :: "weatherData \<Rightarrow> pfiEntry list" where
  "calculatePFI wd =
     map (calculatePFIAt (daily wd)) [0..<length (time (daily wd))]"

section \<open>The trend of today against yesterday\<close>

datatype arrow = ArrowUp | ArrowDown | ArrowFlat

text \<open>
  The two template strings of \<open>generateComparisonData\<close> are kept as their parts: the
  arrow alone, or the arrow followed by the absolute percentage and a percent sign.
\<close>

datatype percentDisplay = ArrowOnly arrow | ArrowPercent arrow jsnum

record comparisonData =
  arrow :: arrow
  percentage :: jsnum
  comparison :: string
  fullDisplay :: percentDisplay
  htmlDisplay :: percentDisplay

definition generateComparisonData :: "jsnum \<Rightarrow> string \<Rightarrow> comparisonData" where
  "generateComparisonData difference dayName =
     (let pct = jsRound (jsMul difference (Num 5));
          (arr, cmp) =
            (if jsGt pct (Num 35) then (ArrowUp, ''significantly_hotter'')
             else if jsGt pct (Num 15) then (ArrowUp, ''noticeably_hotter'')
             else if jsGt pct (Num 5) then (ArrowUp, ''hotter'')
             else if jsLt pct (Num (- 35)) then (ArrowDown, ''significantly_colder'')
             else if jsLt pct (Num (- 15)) then (ArrowDown, ''noticeably_colder'')
             else if jsLt pct (Num (- 5)) then (ArrowDown, ''colder'')
             else (ArrowFlat, ''same''));
          full = (if jsGe (jsAbs pct) (Num 5) then ArrowPercent arr (jsAbs pct)
                  else ArrowOnly arr);
          html = (if jsGe (jsAbs pct) (Num 5) then ArrowPercent arr (jsAbs pct)
                  else ArrowOnly arr)
      in \<lparr>arrow = arr, percentage = jsAbs pct, comparison = cmp,
          fullDisplay = full, htmlDisplay = html\<rparr>)"

section \<open>Dates, the time zone and the forward series\<close>

text \<open>
  A \<open>Date\<close> is an instant, counted in milliseconds from 1970-01-01T00:00 UTC (within
  the range of \<open>Date\<close>). The browser's time zone is given by the two offsets of
  ECMAScript, in milliseconds and negative west of Greenwich: \<open>tzaUTC t\<close> is the offset
  of local time from UTC at the instant \<open>t\<close>, and \<open>tzaLocal t\<close> is the offset that
  applies to the local time \<open>t\<close> when it is converted back to an instant.
\<close>

record zone =
  tzaUTC :: "int \<Rightarrow> int"
  tzaLocal :: "int \<Rightarrow> int"

definition msPerDay :: int where
  "msPerDay = 86400000"

text \<open>The local time of an instant, and the day number of its local calendar day.\<close>

definition localTime :: "zone \<Rightarrow> int \<Rightarrow> int" where
  "localTime z t = t + tzaUTC z t"

definition localDay :: "zone \<Rightarrow> int \<Rightarrow> int" where
  "localDay z t = localTime z t div msPerDay"

text \<open>\<open>new Date(s)\<close> for a date-only string \<open>s\<close>: midnight UTC at the start of that date.\<close>

definition parseDate :: "int \<Rightarrow> int" where
  "parseDate d = d * msPerDay"

text \<open>
  The table of short English weekday names, indexed by a calendar day number:
  1970-01-01 was a Thursday. The formatter below applies it to the local calendar day
  of an instant.
\<close>

definition weekdayName :: "int \<Rightarrow> string" where
  "weekdayName d =
     [''Thu'', ''Fri'', ''Sat'', ''Sun'', ''Mon'', ''Tue'', ''Wed''] ! nat (d mod 7)"

text \<open>
  \<open>toLocaleDateString('en-US', { weekday: 'short' })\<close> of an instant: the weekday of its
  local calendar day.
\<close>

definition toLocaleWeekday :: "zone \<Rightarrow> int \<Rightarrow> string" where
  "toLocaleWeekday z t = weekdayName (localDay z t)"

text \<open>
  \<open>d.setDate(d.getDate() + i)\<close> on the instant \<open>t\<close>: the local time moved by \<open>i\<close> whole
  days, converted back to an instant.
\<close>

definition setDatePlus :: "zone \<Rightarrow> int \<Rightarrow> nat \<Rightarrow> int" where
  "setDatePlus z t i =
     (let newDate = localTime z t + int i * msPerDay in newDate - tzaLocal z newDate)"

text \<open>
  The fallback of \<open>generateWeekPFI\<close> and the mock path: \<open>new Date()\<close> moved by \<open>setDate\<close>
  by \<open>i\<close> days, then formatted.
\<close>

definition weekdayInDays :: "zone \<Rightarrow> int \<Rightarrow> nat \<Rightarrow> string" where
  "weekdayInDays z now i = toLocaleWeekday z (setDatePlus z now i)"

text \<open>In \<open>pfiValues\<close>, \<open>None\<close> is the \<open>null\<close> that is pushed for a missing value.\<close>

record weekPFI =
  dayNames :: "string list"
  pfiValues :: "jsnum option list"

text \<open>
  \<open>z\<close> is the time zone of the browser and \<open>now\<close> the instant of the call
  (\<open>new Date()\<close>), which only the fallback branch reads.
\<close>

definition generateWeekPFI :: "zone \<Rightarrow> int \<Rightarrow> pfiEntry list \<Rightarrow> weekPFI" where
  "generateWeekPFI z now pfiData =
     \<lparr>dayNames =
        map (\<lambda>i. case objAt pfiData i of
                    None \<Rightarrow> weekdayInDays z now i
                  | Some e \<Rightarrow>
                      (case date e of
                         None \<Rightarrow> weekdayInDays z now i
                       | Some apiDate \<Rightarrow> toLocaleWeekday z (parseDate apiDate)))
            [1..<7],
      pfiValues =
        map (\<lambda>i. case objAt pfiData i of
                    None \<Rightarrow> None
                  | Some e \<Rightarrow> (case pfi e of None \<Rightarrow> None | Some v \<Rightarrow> Some v))
            [1..<7]\<rparr>"

section \<open>The comparison aggregator\<close>

datatype error = NotEnoughWeatherData | TypeError

text \<open>
  \<open>todayComparison\<close> is the full record on the live path and an object with the single
  field \<open>comparison\<close> on the mock path.
\<close>

datatype trendInfo = LiveTrend comparisonData | MockTrend string

fun comparisonOf :: "trendInfo \<Rightarrow> string" where
  "comparisonOf (LiveTrend c) = comparison c"
| "comparisonOf (MockTrend s) = s"

record comparisons =
  todayPFI :: "jsnum option"
  todayComparison :: trendInfo
  weekPFI :: weekPFI
  todayPrecipitation :: display
  weekPrecipitation :: "display list"
  todayHazard :: display
  weekHazards :: "display list"

text \<open>\<open>hazards[i]\<close>: \<open>undefined\<close> past the end, which \<open>getHazardDisplay\<close> treats as \<open>null\<close>.\<close>

definition hazardAt :: "string option list \<Rightarrow> nat \<Rightarrow> string option" where
  "hazardAt hazards i = (case objAt hazards i of None \<Rightarrow> None | Some h \<Rightarrow> h)"

definition precipitationDisplayOf :: "precipPair option \<Rightarrow> display" where
  "precipitationDisplayOf pr =
     (case pr of
        None \<Rightarrow> noDisplay
      | Some p \<Rightarrow> getPrecipitationDisplay (determinePrecipitationType (rain p) (snow p)))"

definition generateComparisons ::
  "zone \<Rightarrow> int \<Rightarrow> pfiEntry list \<Rightarrow> jsnum \<Rightarrow> weatherData \<Rightarrow> error + comparisons" where
  "generateComparisons z now pfiData currentTemp wd =
     (if length pfiData < 7 then Inl NotEnoughWeatherData
      else
        let yesterday = pfiData ! 0;
            today = pfiData ! 1;
            todayVsYesterdayDiff = jsSub (toNumber (pfi today)) (toNumber (pfi yesterday));
            slicedData = drop 1 pfiData;
            hazards = detectHazards wd;
            slicedHazards = drop 1 hazards
        in Inr \<lparr>todayPFI = pfi today,
                todayComparison =
                  LiveTrend (generateComparisonData todayVsYesterdayDiff ''Today''),
                weekPFI = generateWeekPFI z now (drop 1 pfiData),
                todayPrecipitation = precipitationDisplayOf (precipitation today),
                weekPrecipitation =
                  map (\<lambda>i. case objAt slicedData i of
                              None \<Rightarrow> noDisplay
                            | Some dayData \<Rightarrow> precipitationDisplayOf (precipitation dayData))
                      [1..<7],
                todayHazard = getHazardDisplay (hazardAt hazards 1),
                weekHazards = map (\<lambda>i. getHazardDisplay (hazardAt slicedHazards i)) [1..<7]\<rparr>)"

section \<open>The mock path\<close>

text \<open>
  One entry of \<open>window.mockConfig\<close>; its fields \<open>pfi\<close>, \<open>precipitation\<close> and \<open>hazard\<close>
  carry the prefix \<open>mock_\<close> here. A missing or falsy field is \<open>None\<close>.
\<close>

record mockDay =
  day :: string
  mock_pfi :: "jsnum option"
  mock_precipitation :: "precipPair option"
  mock_hazard :: "string option"

text \<open>\<open>testing\<close> is \<open>window.TESTING_MODE\<close> and \<open>config\<close> is \<open>window.mockConfig\<close>.\<close>

definition getMockConfig :: "bool \<Rightarrow> mockDay list \<Rightarrow> string \<Rightarrow> mockDay option" where
  "getMockConfig testing config k =
     (if \<not> testing then None else find (\<lambda>d. day d = k) config)"

definition mockDayOrder :: "string list" where
  "mockDayOrder =
     [''yesterday'', ''today'', ''tomorrow'', ''day3'', ''day4'', ''day5'', ''day6'', ''day7'']"

definition weekMockDays :: "string list" where
  "weekMockDays = [''tomorrow'', ''day3'', ''day4'', ''day5'', ''day6'', ''day7'']"

text \<open>The trend chain of \<open>generateMockComparisons\<close>, on the difference in degrees.\<close>

definition mockComparison :: "jsnum \<Rightarrow> string" where
  "mockComparison todayVsYesterdayDiff =
     (if jsGt todayVsYesterdayDiff (Num 7) then ''significantly_hotter''
      else if jsGt todayVsYesterdayDiff (Num 3) then ''noticeably_hotter''
      else if jsGt todayVsYesterdayDiff (Num 1) then ''hotter''
      else if jsLt todayVsYesterdayDiff (Num (- 7)) then ''significantly_colder''
      else if jsLt todayVsYesterdayDiff (Num (- 3)) then ''noticeably_colder''
      else if jsLt todayVsYesterdayDiff (Num (- 1)) then ''colder''
      else ''same'')"

text \<open>
  Reading \<open>todayMock.pfi\<close> when no entry is keyed \<open>today\<close> (or outside testing mode)
  throws a \<open>TypeError\<close>.
\<close>

definition generateMockComparisons ::
  "bool \<Rightarrow> mockDay list \<Rightarrow> zone \<Rightarrow> int \<Rightarrow> error + comparisons" where
  "generateMockComparisons testing config z now =
     (case getMockConfig testing config ''today'' of
        None \<Rightarrow> Inl TypeError
      | Some todayMock \<Rightarrow>
          let yesterdayPfi =
                (case getMockConfig testing config ''yesterday'' of
                   None \<Rightarrow> Some (Num 20)
                 | Some yesterdayMock \<Rightarrow> mock_pfi yesterdayMock);
              todayVsYesterdayDiff =
                jsSub (toNumber (mock_pfi todayMock)) (toNumber yesterdayPfi);
              names = map (\<lambda>i. weekdayInDays z now i) [1..<7];
              values =
                map (\<lambda>dayKey. case getMockConfig testing config dayKey of
                                 None \<Rightarrow> Num 22
                               | Some mockData \<Rightarrow>
                                   (case mock_pfi mockData of None \<Rightarrow> Num 22 | Some v \<Rightarrow> v))
                    mockDayOrder
          in Inr \<lparr>todayPFI = objAt values 1,
                  todayComparison = MockTrend (mockComparison todayVsYesterdayDiff),
                  weekPFI = \<lparr>dayNames = names, pfiValues = map Some (drop 2 values)\<rparr>,
                  todayPrecipitation = precipitationDisplayOf (mock_precipitation todayMock),
                  weekPrecipitation =
                    map (\<lambda>dayKey. case getMockConfig testing config dayKey of
                                     None \<Rightarrow> noDisplay
                                   | Some mockData \<Rightarrow>
                                       precipitationDisplayOf (mock_precipitation mockData))
                        weekMockDays,
                  todayHazard =
                    (case mock_hazard todayMock of
                       None \<Rightarrow> noDisplay
                     | Some h \<Rightarrow> getHazardDisplay (Some h)),
                  weekHazards =
                    map (\<lambda>dayKey. case getMockConfig testing config dayKey of
                                     None \<Rightarrow> noDisplay
                                   | Some mockData \<Rightarrow>
                                       (case mock_hazard mockData of
                                          None \<Rightarrow> noDisplay
                                        | Some h \<Rightarrow> getHazardDisplay (Some h)))
                        weekMockDays\<rparr>)"

section \<open>Rendering\<close>

text \<open>
  The part of the page that \<open>displayResults\<close> writes. A hazard or precipitation
  container has a \<open>style.display\<close>, an icon element and a label element.
\<close>

datatype cssDisplay = DisplayFlex | DisplayNone | DisplayUnset

record badge =
  styleDisplay :: cssDisplay
  iconClassName :: string
  iconInnerHTML :: string
  labelClassName :: string
  labelTextContent :: string

text \<open>
  The text of a PFI element: a rounded number followed by the degree sign, the two
  dashes of a missing value, or whatever text was there before.
\<close>

datatype pfiText = Degrees jsnum | NoData | OtherText string

record dayItem =
  dayNameText :: string
  dayPfiText :: pfiText
  precipitationWeek :: badge
  hazardWeek :: badge

record page =
  pfiValueText :: pfiText
  comparisonInnerHTML :: string
  precipitationToday :: badge
  hazardToday :: badge
  dayItems :: "dayItem list"

definition comparisonText :: "string \<Rightarrow> string" where
  "comparisonText c =
     (if c = ''significantly_colder'' then ''Significantly colder<br>than yesterday''
      else if c = ''noticeably_colder'' then ''Noticeably colder<br>than yesterday''
      else if c = ''colder'' then ''A bit colder than<br>yesterday''
      else if c = ''significantly_hotter'' then ''Significantly hotter<br>than yesterday''
      else if c = ''noticeably_hotter'' then ''Noticeably hotter<br>than yesterday''
      else if c = ''hotter'' then ''A bit hotter than<br>yesterday''
      else ''About the same as<br>yesterday'')"

text \<open>A template string prints a missing \<open>colorClass\<close> as \<open>undefined\<close>.\<close>

definition classText :: "string option \<Rightarrow> string" where
  "classText c = (case c of None \<Rightarrow> ''undefined'' | Some s \<Rightarrow> s)"

text \<open>\<open>Math.round\<close> of a PFI value that may be \<open>null\<close>: \<open>null\<close> rounds to 0.\<close>

definition roundOrNull :: "jsnum option \<Rightarrow> jsnum" where
  "roundOrNull v = (case v of None \<Rightarrow> Num 0 | Some x \<Rightarrow> jsRound x)"

definition displayToday :: "comparisons \<Rightarrow> page \<Rightarrow> page" where
  "displayToday c p =
     (let p1 = (case todayPFI c of
                  None \<Rightarrow> p
                | Some v \<Rightarrow> p\<lparr>pfiValueText := Degrees (jsRound v)\<rparr>);
          p2 = p1\<lparr>comparisonInnerHTML := comparisonText (comparisonOf (todayComparison c))\<rparr>
      in if shown (todayHazard c) then
           p2\<lparr>hazardToday :=
                 (hazardToday p2)
                   \<lparr>iconClassName := ''hazard-icon '' @ classText (colorClass (todayHazard c)),
                    labelClassName := ''hazard-label '' @ classText (colorClass (todayHazard c)),
                    iconInnerHTML := icon (todayHazard c),
                    labelTextContent := label (todayHazard c),
                    styleDisplay := DisplayFlex\<rparr>,
               precipitationToday := (precipitationToday p2)\<lparr>styleDisplay := DisplayNone\<rparr>\<rparr>
         else if shown (todayPrecipitation c) then
           p2\<lparr>precipitationToday :=
                 (precipitationToday p2)
                   \<lparr>iconInnerHTML := icon (todayPrecipitation c),
                    labelTextContent := label (todayPrecipitation c),
                    styleDisplay := DisplayFlex\<rparr>,
               hazardToday := (hazardToday p2)\<lparr>styleDisplay := DisplayNone\<rparr>\<rparr>
         else
           p2\<lparr>precipitationToday := (precipitationToday p2)\<lparr>styleDisplay := DisplayNone\<rparr>,
               hazardToday := (hazardToday p2)\<lparr>styleDisplay := DisplayNone\<rparr>\<rparr>)"

text \<open>The callback of the \<open>forEach\<close> over \<open>dayNames\<close>, applied to the item at \<open>index\<close>.\<close>

definition displayDay :: "comparisons \<Rightarrow> nat \<Rightarrow> dayItem \<Rightarrow> dayItem" where
  "displayDay c index item =
     (let i1 = item\<lparr>dayNameText := dayNames (weekPFI c) ! index\<rparr>;
          i2 = (case objAt (pfiValues (weekPFI c)) index of
                  None \<Rightarrow> i1\<lparr>dayPfiText := NoData\<rparr>
                | Some v \<Rightarrow> i1\<lparr>dayPfiText := Degrees (roundOrNull v)\<rparr>);
          neither =
            i2\<lparr>precipitationWeek := (precipitationWeek i2)\<lparr>styleDisplay := DisplayNone\<rparr>,
                hazardWeek := (hazardWeek i2)\<lparr>styleDisplay := DisplayNone\<rparr>\<rparr>;
          noHazard =
            (case objAt (weekPrecipitation c) index of
               None \<Rightarrow> neither
             | Some pr \<Rightarrow>
                 if shown pr then
                   i2\<lparr>precipitationWeek :=
                         (precipitationWeek i2)
                           \<lparr>iconInnerHTML := icon pr, styleDisplay := DisplayFlex\<rparr>,
                       hazardWeek := (hazardWeek i2)\<lparr>styleDisplay := DisplayNone\<rparr>\<rparr>
                 else neither)
      in case objAt (weekHazards c) index of
           None \<Rightarrow> noHazard
         | Some hz \<Rightarrow>
             if shown hz then
               i2\<lparr>hazardWeek :=
                     (hazardWeek i2)
                       \<lparr>iconClassName := ''hazard-icon '' @ classText (colorClass hz),
                        iconInnerHTML := icon hz,
                        styleDisplay := DisplayFlex\<rparr>,
                   precipitationWeek := (precipitationWeek i2)\<lparr>styleDisplay := DisplayNone\<rparr>\<rparr>
             else noHazard)"

text \<open>
  The \<open>forEach\<close> itself: the page has to hold an item for every index, since reading a
  child of a missing item throws a \<open>TypeError\<close>.
\<close>

fun displayWeek :: "comparisons \<Rightarrow> nat list \<Rightarrow> dayItem list \<Rightarrow> error + dayItem list" where
  "displayWeek c [] items = Inr items"
| "displayWeek c (index # rest) items =
     (if index < length items
      then displayWeek c rest (items[index := displayDay c index (items ! index)])
      else Inl TypeError)"

definition displayResults :: "comparisons \<Rightarrow> page \<Rightarrow> error + page" where
  "displayResults c p =
     (let p1 = displayToday c p
      in case displayWeek c [0..<length (dayNames (weekPFI c))] (dayItems p1) of
           Inl e \<Rightarrow> Inl e
         | Inr items \<Rightarrow> Inr (p1\<lparr>dayItems := items\<rparr>))"

section \<open>The rules as the specification words them\<close>

text \<open>The six readings of one day that the hazard rules look at.\<close>

record dayReadings =
  tempMax :: jsnum
  tempMin :: jsnum
  humidity :: jsnum
  wind :: jsnum
  precipSum :: jsnum
  precipProb :: jsnum

definition readingsAt :: "dailyData \<Rightarrow> nat \<Rightarrow> dayReadings" where
  "readingsAt d i =
     \<lparr>tempMax = numAt (apparent_temperature_max d) i,
      tempMin = numAt (apparent_temperature_min d) i,
      humidity = numAt (relative_humidity_2m_mean d) i,
      wind = numAt (windspeed_10m_max d) i,
      precipSum = numAt (precipitation_sum d) i,
      precipProb = numAt (precipitation_probability_max d) i\<rparr>"

text \<open>The priority list of section 4.3 of the specification, highest priority first.\<close>

definition hazardRules :: "((dayReadings \<Rightarrow> bool) \<times> string) list" where
  "hazardRules =
     [(\<lambda>r. jsGe (tempMax r) (Num 32) \<and> jsLe (humidity r) (Num 30) \<and> jsGe (wind r) (Num 25),
       ''Fire Risk''),
      (\<lambda>r. jsGe (tempMax r) (Num 38), ''Extreme Heat''),
      (\<lambda>r. jsGe (precipSum r) (Num 30) \<and> jsGe (precipProb r) (Num 70), ''Heavy Rain''),
      (\<lambda>r. jsGt (precipSum r) (Num 0) \<and> jsLe (tempMin r) (Num 0), ''Snow/Ice''),
      (\<lambda>r. jsLe (tempMin r) (Num 0), ''Extreme Cold''),
      (\<lambda>r. jsGe (wind r) (Num 50), ''Strong Winds'')]"

text \<open>First match wins; no match gives no hazard.\<close>

definition firstMatch :: "(('a \<Rightarrow> bool) \<times> 'b) list \<Rightarrow> 'a \<Rightarrow> 'b option" where
  "firstMatch rules x = map_option snd (find (\<lambda>rule. fst rule x) rules)"

text \<open>
  Slot \<open>i\<close> of the three forward arrays of a result holds the PFI, the precipitation
  display and the hazard display of day \<open>j\<close> of the input.
\<close>

definition slotFromDay ::
  "comparisons \<Rightarrow> pfiEntry list \<Rightarrow> weatherData \<Rightarrow> nat \<Rightarrow> nat \<Rightarrow> bool" where
  "slotFromDay c pfiData wd i j =
     (pfiValues (weekPFI c) ! i = pfi (pfiData ! j) \<and>
      weekPrecipitation c ! i = precipitationDisplayOf (precipitation (pfiData ! j)) \<and>
      weekHazards c ! i = getHazardDisplay (detectHazards wd ! j))"

section \<open>Sample inputs\<close>

text \<open>
  Eight days with a different marker on every day: 1970-01-01 (a Thursday) is
  yesterday. Day 6 qualifies for Fire Risk and for Extreme Heat; day 1 (today) and
  day 5 qualify for Heavy Rain and for a rain display; day 7 is a freezing day.
\<close>

definition sampleDaily :: dailyData where
  "sampleDaily =
     \<lparr>time = [0, 1, 2, 3, 4, 5, 6, 7],
      apparent_temperature_min = map Num [10, 11, 12, 13, 14, 15, 16, - 5],
      apparent_temperature_max = map Num [20, 21, 22, 23, 24, 25, 40, - 1],
      cloudcover_mean = map Num [50, 40, 30, 20, 10, 0, 60, 70],
      precipitation_probability_max = map Num [0, 75, 35, 65, 20, 75, 5, 45],
      precipitation_sum = map Num [0, 35, 2, 3, 4, 35, 0, 6],
      windspeed_10m_max = map Num [5, 6, 7, 8, 9, 10, 30, 12],
      relative_humidity_2m_mean = map Num [50, 51, 52, 53, 54, 55, 20, 57]\<rparr>"

definition firstDays :: "nat \<Rightarrow> dailyData \<Rightarrow> dailyData" where
  "firstDays n d =
     \<lparr>time = take n (time d),
      apparent_temperature_min = take n (apparent_temperature_min d),
      apparent_temperature_max = take n (apparent_temperature_max d),
      cloudcover_mean = take n (cloudcover_mean d),
      precipitation_probability_max = take n (precipitation_probability_max d),
      precipitation_sum = take n (precipitation_sum d),
      windspeed_10m_max = take n (windspeed_10m_max d),
      relative_humidity_2m_mean = take n (relative_humidity_2m_mean d)\<rparr>"

definition sampleWeek :: "nat \<Rightarrow> weatherData" where
  "sampleWeek n = \<lparr>current_temperature_2m = Num 18, daily = firstDays n sampleDaily\<rparr>"

text \<open>
  Two time zones with a constant offset, UTC and five hours west of it, and noon UTC of
  a day as the instant of a call.
\<close>

definition utc :: zone where
  "utc = \<lparr>tzaUTC = (\<lambda>t. 0), tzaLocal = (\<lambda>t. 0)\<rparr>"


definition noonOn :: "int \<Rightarrow> int" where
  "noonOn d = d * msPerDay + 43200000"

text \<open>A mock configuration whose PFI rises by 1.0625 degrees from yesterday to today.\<close>

definition sampleMockConfig :: "mockDay list" where
  "sampleMockConfig =
     [\<lparr>day = ''yesterday'', mock_pfi = Some (Num 20),
       mock_precipitation = Some \<lparr>rain = Num 15, snow = Num 5\<rparr>, mock_hazard = None\<rparr>,
      \<lparr>day = ''today'', mock_pfi = Some (Num 21.0625),
       mock_precipitation = Some \<lparr>rain = Num 40, snow = Num 20\<rparr>,
       mock_hazard = Some ''Heavy Rain''\<rparr>]"

text \<open>A page with six day items and nothing shown yet.\<close>

definition emptyBadge :: badge where
  "emptyBadge =
     \<lparr>styleDisplay = DisplayUnset, iconClassName = '''', iconInnerHTML = '''',
      labelClassName = '''', labelTextContent = ''''\<rparr>"

definition emptyPage :: page where
  "emptyPage =
     \<lparr>pfiValueText = OtherText '''', comparisonInnerHTML = '''',
      precipitationToday = emptyBadge, hazardToday = emptyBadge,
      dayItems =
        replicate 6 \<lparr>dayNameText = '''', dayPfiText = OtherText '''',
                      precipitationWeek = emptyBadge, hazardWeek = emptyBadge\<rparr>\<rparr>"

text \<open>
  A response of a single day whose PFI is not exact in doubles: apparent temperatures
  10 and 20.4, cloud cover 5.
\<close>

definition roundingSample :: weatherData where
  "roundingSample =
     \<lparr>current_temperature_2m = Num 15,
      daily =
        \<lparr>time = [0],
         apparent_temperature_min = [Num 10],
         apparent_temperature_max = [jsLit 20.4],
         cloudcover_mean = [Num 5],
         precipitation_probability_max = [Num 0],
         precipitation_sum = [Num 0],
         windspeed_10m_max = [Num 5],
         relative_humidity_2m_mean = [Num 50]\<rparr>\<rparr>"

section \<open>Facts about the loops and the sample inputs\<close>

lemma length_detectHazards: "length (detectHazards wd) = length (time (daily wd))"
  by (simp add: detectHazards_def)

lemma nth_detectHazards:
  "i < length (time (daily wd)) \<Longrightarrow> detectHazards wd ! i = detectHazardAt (daily wd) i"
  by (simp add: detectHazards_def)

lemma length_calculatePFI: "length (calculatePFI wd) = length (time (daily wd))"
  by (simp add: calculatePFI_def)

lemma nth_calculatePFI:
  "i < length (time (daily wd)) \<Longrightarrow> calculatePFI wd ! i = calculatePFIAt (daily wd) i"
  by (simp add: calculatePFI_def)

lemma detectHazardAt_firstMatch:
  "detectHazardAt d i = firstMatch hazardRules (readingsAt d i)"
  by (simp add: detectHazardAt_def firstMatch_def hazardRules_def readingsAt_def Let_def)

lemma fire_risk_first:
  assumes "tempMax r = Num 40" "humidity r = Num 20" "wind r = Num 30"
  shows "firstMatch hazardRules r = Some ''Fire Risk''"
  using assms by (simp add: firstMatch_def hazardRules_def jsGe_def)

lemma sample_lengths:
  "length (time (daily (sampleWeek 7))) = 7"
  "length (time (daily (sampleWeek 8))) = 8"
  by (simp_all add: sampleWeek_def firstDays_def sampleDaily_def)

lemma sample7_readings_6:
  "readingsAt (daily (sampleWeek 7)) 6 =
     \<lparr>tempMax = Num 40, tempMin = Num 16, humidity = Num 20, wind = Num 30,
      precipSum = Num 0, precipProb = Num 5\<rparr>"
  by (simp add: sampleWeek_def firstDays_def sampleDaily_def readingsAt_def numAt_def)

lemma sample7_day_0:
  "numAt (apparent_temperature_min (daily (sampleWeek 7))) 0 = Num 10"
  "numAt (apparent_temperature_max (daily (sampleWeek 7))) 0 = Num 20"
  "numAt (cloudcover_mean (daily (sampleWeek 7))) 0 = Num 50"
  by (simp_all add: sampleWeek_def firstDays_def sampleDaily_def numAt_def)

section \<open>The hazard detector\<close>

text \<open>
  C4. For every day \<open>i\<close> of the response, \<open>detectHazards\<close> returns one entry, a hazard
  name or none, and that entry is the first rule of the priority list Fire Risk,
  Extreme Heat, Heavy Rain, Snow/Ice, Extreme Cold, Strong Winds that the day's readings
  satisfy, none when no rule matches. A day with \<open>tempMax = 40\<close>, \<open>humidity = 20\<close>,
  \<open>wind = 30\<close> and \<open>precipSum = 0\<close> yields Fire Risk, although it satisfies the rule of
  Extreme Heat as well.
\<close>

theorem detectHazards_priority_order:
  assumes "i < length (time (daily wd))"
  shows "length (detectHazards wd) = length (time (daily wd)) \<and>
         detectHazards wd ! i = firstMatch hazardRules (readingsAt (daily wd) i) \<and>
         (tempMax (readingsAt (daily wd) i) = Num 40 \<and>
          humidity (readingsAt (daily wd) i) = Num 20 \<and>
          wind (readingsAt (daily wd) i) = Num 30 \<and>
          precipSum (readingsAt (daily wd) i) = Num 0
          \<longrightarrow> detectHazards wd ! i = Some ''Fire Risk'')"
  using assms
  by (simp add: length_detectHazards nth_detectHazards detectHazardAt_firstMatch
        fire_risk_first)

theorem detectHazards_priority_order_witness:
  "6 < length (time (daily (sampleWeek 7))) \<and>
   detectHazards (sampleWeek 7) ! 6 = Some ''Fire Risk'' \<and>
   jsGe (tempMax (readingsAt (daily (sampleWeek 7)) 6)) (Num 38)"
  using detectHazards_priority_order [of 6 "sampleWeek 7"]
  by (auto simp add: sample_lengths sample7_readings_6 jsGe_def)

section \<open>The precipitation resolver\<close>

text \<open>
  C5, as stated, fails: on the tie \<open>rain = 50\<close>, \<open>snow = 50\<close> the test
  \<open>rainProb > snowProb\<close> is false, so the \<open>else\<close> branch returns snow and the label is
  "Likely to snow".
\<close>

theorem determinePrecipitationType_tie_counterexample:
  "map_option type (determinePrecipitationType (Num 50) (Num 50)) = Some Snow \<and>
   label (getPrecipitationDisplay (determinePrecipitationType (Num 50) (Num 50)))
     = ''Likely to snow'' \<and>
   label (getPrecipitationDisplay (determinePrecipitationType (Num 50) (Num 50)))
     \<noteq> ''Likely to rain''"
  by (simp add: determinePrecipitationType_def getPrecipitationDisplay_def jsGt_def)

text \<open>
  C5, amended. When \<open>rain > 30\<close> or \<open>snow > 30\<close>, \<open>determinePrecipitationType\<close> returns rain
  with its probability exactly when rain is strictly higher than snow, and snow with
  its probability otherwise, so a tie goes to snow; the label is the "expected" wording
  above 60 and the "likely" wording otherwise.
\<close>

theorem determinePrecipitationType_higher_side:
  assumes "30 < r \<or> 30 < s"
  shows "determinePrecipitationType (Num r) (Num s) =
           Some (if s < r then \<lparr>type = Rain, probability = Num r\<rparr>
                 else \<lparr>type = Snow, probability = Num s\<rparr>) \<and>
         label (getPrecipitationDisplay (determinePrecipitationType (Num r) (Num s))) =
           (if s < r then (if 60 < r then ''Rain expected'' else ''Likely to rain'')
            else (if 60 < s then ''Snow expected'' else ''Likely to snow''))"
  using assms
  by (auto simp add: determinePrecipitationType_def getPrecipitationDisplay_def jsGt_def)

theorem determinePrecipitationType_higher_side_witness:
  "((30::real) < 50 \<or> (30::real) < 50) \<and>
   determinePrecipitationType (Num 50) (Num 50) = Some \<lparr>type = Snow, probability = Num 50\<rparr> \<and>
   label (getPrecipitationDisplay (determinePrecipitationType (Num 50) (Num 50)))
     = ''Likely to snow''"
  using determinePrecipitationType_higher_side [of 50 50]
  by auto

section \<open>Facts about rounding\<close>

text \<open>The equations that evaluate a rounding on a literal.\<close>

lemmas double_eval = toDouble_def jsLit_def fl_def expo_def roundEven_def Let_def compute_bitlen

lemma toDouble_cases:
  "toDouble x = (if 2 ^ 1024 \<le> fl x then PosInf else if fl x \<le> - (2 ^ 1024) then NegInf else Num (fl x))"
  by (simp add: toDouble_def Let_def)

lemma toDouble_finite: "\<bar>fl x\<bar> < 2 ^ 1024 \<Longrightarrow> toDouble x = Num (fl x)"
  by (auto simp add: toDouble_def Let_def)

lemma fl_small_integers:
  "fl 0 = 0" "fl 5 = 5" "fl 15 = 15" "fl 30 = 30"
  by (simp_all add: double_eval)

text \<open>The result of \<open>generateComparisonData\<close> when the product does not overflow.\<close>

lemma generateComparisonData_Num:
  assumes "jsMul (Num d) (Num 5) = Num q"
  shows "generateComparisonData (Num d) n =
     (let p = round q;
          (arr, cmp) =
            (if 35 < p then (ArrowUp, ''significantly_hotter'')
             else if 15 < p then (ArrowUp, ''noticeably_hotter'')
             else if 5 < p then (ArrowUp, ''hotter'')
             else if p < - 35 then (ArrowDown, ''significantly_colder'')
             else if p < - 15 then (ArrowDown, ''noticeably_colder'')
             else if p < - 5 then (ArrowDown, ''colder'')
             else (ArrowFlat, ''same''));
          shownPct = (if 5 \<le> \<bar>p\<bar> then ArrowPercent arr (Num (of_int \<bar>p\<bar>)) else ArrowOnly arr)
      in \<lparr>arrow = arr, percentage = Num (of_int \<bar>p\<bar>), comparison = cmp,
          fullDisplay = shownPct, htmlDisplay = shownPct\<rparr>)"
proof -
  have abs_percentage_ge: "(5 \<le> \<bar>real_of_int p\<bar>) = (5 \<le> \<bar>p\<bar>)" for p :: int
    by linarith
  show ?thesis
    unfolding generateComparisonData_def assms
    by (simp add: Let_def jsGt_def jsGe_def abs_percentage_ge)
qed


text \<open>
  The rounding error: half a unit in the last place, which is at most \<open>|x| / 2^53\<close> for
  a normal result and \<open>2^(-1075)\<close> for a subnormal one.
\<close>

lemma expo_lower:
  assumes "x \<noteq> 0"
  shows "2 powi (expo x) \<le> \<bar>x\<bar>"
proof (cases "1 \<le> \<bar>x\<bar>")
  case True
  let ?n = "\<lfloor>\<bar>x\<bar>\<rfloor>"
  have n: "0 < ?n" using True by linarith
  have k: "0 \<le> bitlen ?n - 1"
    using n bitlen_eq_zero_iff [of ?n] bitlen_nonneg [of ?n] by linarith
  have "(2::int) ^ nat (bitlen ?n - 1) \<le> ?n"
    using bitlen_bounds [OF n] by simp
  then have "real_of_int (2 ^ nat (bitlen ?n - 1)) \<le> real_of_int ?n"
    by linarith
  also have "\<dots> \<le> \<bar>x\<bar>" by linarith
  finally have "(2::real) ^ nat (bitlen ?n - 1) \<le> \<bar>x\<bar>" by simp
  moreover have "expo x = bitlen ?n - 1" using True by (simp add: expo_def)
  ultimately show ?thesis using k by (simp add: power_int_def)
next
  case False
  let ?m = "\<lceil>1 / \<bar>x\<bar>\<rceil>"
  let ?k = "bitlen (?m - 1)"
  have xpos: "0 < \<bar>x\<bar>" using assms by simp
  have "1 < 1 / \<bar>x\<bar>" using False xpos by simp
  then have m: "0 < ?m - 1" by linarith
  have "?m - 1 < 2 ^ nat ?k" using bitlen_bounds [OF m] by simp
  then have "?m \<le> 2 ^ nat ?k" by linarith
  then have "real_of_int ?m \<le> real_of_int (2 ^ nat ?k)" by linarith
  then have "1 / \<bar>x\<bar> \<le> 2 ^ nat ?k" by (simp add: ceiling_le_iff)
  then have "1 \<le> 2 ^ nat ?k * \<bar>x\<bar>"
    using xpos by (simp add: pos_divide_le_eq)
  then have "1 / 2 ^ nat ?k \<le> \<bar>x\<bar>"
    by (simp add: pos_divide_le_eq mult.commute)
  moreover have "expo x = - ?k" using False by (simp add: expo_def)
  moreover have "0 \<le> ?k" by (rule bitlen_nonneg)
  ultimately show ?thesis
    by (cases "?k = 0") (simp_all add: power_int_def inverse_eq_divide power_one_over)
qed

lemma roundEven_error: "\<bar>real_of_int (roundEven y) - y\<bar> \<le> 1 / 2"
  unfolding roundEven_def Let_def by (auto; linarith)

lemma fl_error: "\<bar>fl x - x\<bar> \<le> \<bar>x\<bar> / 2 ^ 53 + 2 powi (- 1075)"
proof (cases "x = 0")
  case True
  then show ?thesis by (simp add: fl_def)
next
  case False
  define q where "q = max (expo x) (- 1022) - 52"
  define u :: real where "u = 2 powi q"
  have upos: "0 < u" by (simp add: u_def)
  have flx: "fl x = real_of_int (roundEven (x / u)) * u"
    using False by (simp add: fl_def q_def u_def Let_def)
  have "fl x - x = (real_of_int (roundEven (x / u)) - x / u) * u"
    using upos by (simp add: flx algebra_simps)
  then have "\<bar>fl x - x\<bar> = \<bar>real_of_int (roundEven (x / u)) - x / u\<bar> * u"
    using upos by (simp add: abs_mult)
  also have "\<dots> \<le> 1 / 2 * u"
    using roundEven_error [of "x / u"] upos by (intro mult_right_mono) simp_all
  finally have half: "\<bar>fl x - x\<bar> \<le> u / 2" by simp
  show ?thesis
  proof (cases "- 1022 \<le> expo x")
    case True
    then have "q = expo x - 52" by (simp add: q_def)
    then have "u = 2 powi (expo x) / 2 ^ 52"
      by (simp add: u_def power_int_diff)
    then have "u / 2 \<le> \<bar>x\<bar> / 2 ^ 53"
      using expo_lower [OF False] by (simp add: field_simps)
    moreover have "(0::real) \<le> 2 powi (- 1075)" by simp
    ultimately show ?thesis using half by linarith
  next
    case False
    then have "q = - 1074" by (simp add: q_def)
    moreover have "(2::real) powi (- 1074) = 2 powi (- 1075) * 2 powi 1"
      using power_int_add [of "2::real" "- 1075" 1] by simp
    ultimately have "u / 2 = 2 powi (- 1075)"
      by (simp add: u_def)
    moreover have "0 \<le> \<bar>x\<bar> / 2 ^ 53" by simp
    ultimately show ?thesis using half by linarith
  qed
qed


lemma fl_near:
  assumes "\<bar>x\<bar> \<le> B"
  shows "\<bar>fl x - x\<bar> \<le> (B + 1) / 2 ^ 53"
proof -
  have "(2::real) powi (- 1075) \<le> 1 / 2 ^ 53"
    by (simp add: power_int_def power_one_over)
  moreover have "\<bar>x\<bar> / 2 ^ 53 \<le> B / 2 ^ 53"
    using assms by (simp add: divide_right_mono)
  ultimately show ?thesis
    using fl_error [of x] by (simp add: add_divide_distrib)
qed

lemma toDouble_bounded:
  assumes "\<bar>x\<bar> \<le> B" and "B \<le> 2 ^ 1000"
  shows "toDouble x = Num (fl x)" and "\<bar>fl x - x\<bar> \<le> (B + 1) / 2 ^ 53" and "\<bar>fl x\<bar> \<le> B + (B + 1) / 2 ^ 53"
proof -
  show near: "\<bar>fl x - x\<bar> \<le> (B + 1) / 2 ^ 53" by (rule fl_near [OF assms(1)])
  show bound: "\<bar>fl x\<bar> \<le> B + (B + 1) / 2 ^ 53" using near assms(1) by linarith
  have "(B + 1) / 2 ^ 53 \<le> (2 ^ 1000 + 1) / 2 ^ 53"
    using assms(2) by (simp add: divide_right_mono)
  then have "\<bar>fl x\<bar> \<le> 2 ^ 1000 + (2 ^ 1000 + 1) / 2 ^ 53"
    using bound assms(2) by linarith
  moreover have "(2::real) ^ 1000 + (2 ^ 1000 + 1) / 2 ^ 53 < 2 ^ 1024" by simp
  ultimately have "\<bar>fl x\<bar> < 2 ^ 1024" by linarith
  then show "toDouble x = Num (fl x)" by (rule toDouble_finite)
qed

text \<open>
  The five roundings of the PFI expression, for temperatures within 1000 degrees and a
  cloud cover between 0 and 100: nothing overflows and the errors add up to less than
  \<open>3114 / 2^53\<close>.
\<close>

lemma pfi_value_bound:
  assumes "\<bar>lo\<bar> \<le> 1000" and "\<bar>hi\<bar> \<le> 1000" and "0 \<le> c" and "c \<le> 100"
  shows "\<exists>p. jsAdd (jsHalf (jsAdd (Num lo) (Num hi)))
                (jsMul (jsLit 0.02) (jsSub (Num 50) (Num c))) = Num p \<and>
             \<bar>p - ((lo + hi) / 2 + 0.02 * (50 - c))\<bar> \<le> 1 / 10 ^ 12"
proof -
  define e :: real where "e = 1 / 2 ^ 53"
  have e: "0 < e" "e \<le> 1 / 9000000000000000" by (simp_all add: e_def)
  define s where "s = fl (lo + hi)"
  define h where "h = fl (s / 2)"
  define t where "t = fl (50 - c)"
  define k where "k = fl (1 / 50)"
  define m where "m = fl (k * t)"
  define p where "p = fl (h + m)"
  have big: "(2001::real) \<le> 2 ^ 1000" by simp
  have s0: "\<bar>lo + hi\<bar> \<le> 2000" using assms by linarith
  have s1: "jsAdd (Num lo) (Num hi) = Num s" and s2: "\<bar>s - (lo + hi)\<bar> \<le> 2001 * e"
    and s3: "\<bar>s\<bar> \<le> 2001"
    using toDouble_bounded [of "lo + hi" 2000] s0 e by (simp_all add: s_def e_def)
  have h0: "\<bar>s / 2\<bar> \<le> 1001" using s3 by simp
  have h1: "jsHalf (Num s) = Num h" and h2: "\<bar>h - s / 2\<bar> \<le> 1002 * e" and h3: "\<bar>h\<bar> \<le> 1002"
    using toDouble_bounded [of "s / 2" 1001] h0 e by (simp_all add: h_def e_def)
  have t0: "\<bar>50 - c\<bar> \<le> 50" using assms by linarith
  have t1: "jsSub (Num 50) (Num c) = Num t" and t2: "\<bar>t - (50 - c)\<bar> \<le> 51 * e" and t3: "\<bar>t\<bar> \<le> 51"
    using toDouble_bounded [of "50 - c" 50] t0 e by (simp_all add: t_def e_def)
  have k1: "jsLit (1 / 50) = Num k" and k2: "\<bar>k - (1 / 50)\<bar> \<le> 2 * e"
    using toDouble_bounded(1,2) [of "(1 / 50)" 1] e by (simp_all add: k_def e_def jsLit_def)
  have k3: "\<bar>k\<bar> \<le> (3 / 100)" using k2 e by linarith
  have "\<bar>k * t\<bar> = \<bar>k\<bar> * \<bar>t\<bar>" by (rule abs_mult)
  also have "\<dots> \<le> (3 / 100) * 51" using k3 t3 by (intro mult_mono) simp_all
  finally have m0: "\<bar>k * t\<bar> \<le> 2" by simp
  have m1: "jsMul (Num k) (Num t) = Num m" and m2: "\<bar>m - k * t\<bar> \<le> 3 * e" and m3: "\<bar>m\<bar> \<le> 3"
    using toDouble_bounded [of "k * t" 2] m0 e by (simp_all add: m_def e_def)
  have p0: "\<bar>h + m\<bar> \<le> 1005" using h3 m3 by linarith
  have p1: "jsAdd (Num h) (Num m) = Num p" and p2: "\<bar>p - (h + m)\<bar> \<le> 1006 * e"
    using toDouble_bounded [of "h + m" 1005] p0 e by (simp_all add: p_def e_def)
  have "k * t - (1 / 50) * (50 - c) = k * (t - (50 - c)) + (k - (1 / 50)) * (50 - c)"
    by (simp add: algebra_simps)
  moreover have "\<bar>k * (t - (50 - c))\<bar> \<le> (3 / 100) * (51 * e)"
    unfolding abs_mult using k3 t2 by (intro mult_mono) simp_all
  moreover have "\<bar>(k - (1 / 50)) * (50 - c)\<bar> \<le> (2 * e) * 50"
    unfolding abs_mult using k2 t0 e by (intro mult_mono) simp_all
  ultimately have kt: "\<bar>k * t - (1 / 50) * (50 - c)\<bar> \<le> 102 * e"
    using e by linarith
  define A where "A = p - (h + m)"
  define B where "B = h - s / 2"
  define C where "C = s - (lo + hi)"
  define D where "D = m - k * t"
  define E where "E = k * t - (1 / 50) * (50 - c)"
  have eq: "p - ((lo + hi) / 2 + (1 / 50) * (50 - c)) = A + B + C / 2 + D + E"
    by (simp add: A_def B_def C_def D_def E_def field_simps)
  have "\<bar>A + B + C / 2 + D + E\<bar> \<le> \<bar>A\<bar> + \<bar>B\<bar> + \<bar>C\<bar> / 2 + \<bar>D\<bar> + \<bar>E\<bar>"
    by linarith
  moreover have "\<bar>A\<bar> \<le> 1006 * e" "\<bar>B\<bar> \<le> 1002 * e" "\<bar>C\<bar> \<le> 2001 * e"
    "\<bar>D\<bar> \<le> 3 * e" "\<bar>E\<bar> \<le> 102 * e"
    using p2 h2 s2 m2 kt by (simp_all add: A_def B_def C_def D_def E_def)
  ultimately have "\<bar>p - ((lo + hi) / 2 + (1 / 50) * (50 - c))\<bar> \<le> 3114 * e"
    unfolding eq using e(1) by linarith
  also have "3114 * e \<le> 3114 * (1 / 9000000000000000)"
    using e(2) by (intro mult_left_mono) simp_all
  also have "\<dots> \<le> 1 / 1000000000000" by simp
  finally have "\<bar>p - ((lo + hi) / 2 + (1 / 50) * (50 - c))\<bar> \<le> 1 / 1000000000000" .
  then have "\<bar>p - ((lo + hi) / 2 + 0.02 * (50 - c))\<bar> \<le> 1 / 10 ^ 12"
    by simp
  moreover have "jsLit 0.02 = Num k" using k1 by simp
  then have "jsAdd (jsHalf (jsAdd (Num lo) (Num hi)))
                (jsMul (jsLit 0.02) (jsSub (Num 50) (Num c))) = Num p"
    by (simp only: s1 h1 t1 m1 p1)
  ultimately show ?thesis by blast
qed

section \<open>The PFI formula\<close>

lemma pfi_at_10_20_50:
  "jsAdd (jsHalf (jsAdd (Num 10) (Num 20))) (jsMul (jsLit 0.02) (jsSub (Num 50) (Num 50))) = Num 15"
  by (simp add: double_eval)

text \<open>
  C6. For every day \<open>i\<close> of the response whose two apparent temperatures and cloud cover
  are numbers, the PFI that \<open>calculatePFI\<close> stores for the day is
  \<open>(min + max) / 2 + 0.02 * (50 - cloud)\<close> as JavaScript evaluates it, every operation
  rounded to the nearest double. For \<open>min = 10\<close>, \<open>max = 20\<close>, \<open>cloud = 50\<close> it is exactly
  15; for temperatures within 1000 degrees and a cloud cover between 0 and 100 it is a
  finite number within \<open>10^(-12)\<close> of the exact value of the formula.
\<close>

theorem calculatePFI_formula:
  assumes "i < length (time (daily wd))"
    and "numAt (apparent_temperature_min (daily wd)) i = Num lo"
    and "numAt (apparent_temperature_max (daily wd)) i = Num hi"
    and "numAt (cloudcover_mean (daily wd)) i = Num cloud"
  shows "pfi (calculatePFI wd ! i) =
           Some (jsAdd (jsHalf (jsAdd (Num lo) (Num hi)))
                       (jsMul (jsLit 0.02) (jsSub (Num 50) (Num cloud)))) \<and>
         (lo = 10 \<and> hi = 20 \<and> cloud = 50 \<longrightarrow> pfi (calculatePFI wd ! i) = Some (Num 15)) \<and>
         (\<bar>lo\<bar> \<le> 1000 \<and> \<bar>hi\<bar> \<le> 1000 \<and> 0 \<le> cloud \<and> cloud \<le> 100 \<longrightarrow>
            (\<exists>p. pfi (calculatePFI wd ! i) = Some (Num p) \<and>
                 \<bar>p - ((lo + hi) / 2 + 0.02 * (50 - cloud))\<bar> \<le> 1 / 10 ^ 12))"
proof -
  have f: "pfi (calculatePFI wd ! i) =
           Some (jsAdd (jsHalf (jsAdd (Num lo) (Num hi)))
                       (jsMul (jsLit 0.02) (jsSub (Num 50) (Num cloud))))"
    using assms by (simp add: nth_calculatePFI calculatePFIAt_def Let_def)
  have "lo = 10 \<and> hi = 20 \<and> cloud = 50 \<longrightarrow> pfi (calculatePFI wd ! i) = Some (Num 15)"
    using f pfi_at_10_20_50 by auto
  moreover have "\<bar>lo\<bar> \<le> 1000 \<and> \<bar>hi\<bar> \<le> 1000 \<and> 0 \<le> cloud \<and> cloud \<le> 100 \<longrightarrow>
            (\<exists>p. pfi (calculatePFI wd ! i) = Some (Num p) \<and>
                 \<bar>p - ((lo + hi) / 2 + 0.02 * (50 - cloud))\<bar> \<le> 1 / 10 ^ 12)"
    using f pfi_value_bound [of lo hi cloud] by auto
  ultimately show ?thesis using f by blast
qed

theorem calculatePFI_formula_witness:
  "0 < length (time (daily (sampleWeek 7))) \<and>
   numAt (apparent_temperature_min (daily (sampleWeek 7))) 0 = Num 10 \<and>
   numAt (apparent_temperature_max (daily (sampleWeek 7))) 0 = Num 20 \<and>
   numAt (cloudcover_mean (daily (sampleWeek 7))) 0 = Num 50 \<and>
   pfi (calculatePFI (sampleWeek 7) ! 0) = Some (Num 15)"
  using calculatePFI_formula [of 0 "sampleWeek 7" 10 20 50]
  by (auto simp add: sample_lengths sample7_day_0)

text \<open>
  The stored value is the rounded one: for 10, 20.4 and 5 it is the double printed as
  16.099999999999998, below the exact 16.1.
\<close>

lemma calculatePFI_rounding_example:
  "pfi (calculatePFI roundingSample ! 0) = Some (Num (4531747125041561 / 281474976710656)) \<and>
   (4531747125041561 / 281474976710656 :: real) < 16.1"
  by (simp add: calculatePFI_def calculatePFIAt_def roundingSample_def numAt_def double_eval)

section \<open>The trend classifier\<close>

text \<open>
  C7. For every numeric difference \<open>d\<close>, \<open>generateComparisonData\<close> works on the percentage
  \<open>p = Math.round(d * 5)\<close>, the product rounded to a double first: the trend is
  significantly hotter for \<open>p > 35\<close>, noticeably hotter for \<open>p > 15\<close>, hotter for \<open>p > 5\<close>,
  and the same with \<open>< -35\<close>, \<open>< -15\<close>, \<open>< -5\<close> on the colder side, otherwise same; the
  arrow follows the side; the stored percentage is \<open>|p|\<close> and both display strings carry
  it exactly when \<open>|p| \<ge> 5\<close>. A product that overflows is an infinite percentage and
  falls into the outermost bucket of its side. For \<open>d = 1\<close> the percentage is 5 and the
  trend is same.
\<close>

theorem generateComparisonData_thresholds:
  "(\<bar>fl (d * 5)\<bar> < 2 ^ 1024 \<longrightarrow>
     (let p = round (fl (d * 5)); r = generateComparisonData (Num d) n in
        percentage r = Num (of_int \<bar>p\<bar>) \<and>
        (comparison r = ''significantly_hotter'') = (35 < p) \<and>
        (comparison r = ''noticeably_hotter'') = (15 < p \<and> p \<le> 35) \<and>
        (comparison r = ''hotter'') = (5 < p \<and> p \<le> 15) \<and>
        (comparison r = ''same'') = (- 5 \<le> p \<and> p \<le> 5) \<and>
        (comparison r = ''colder'') = (- 15 \<le> p \<and> p < - 5) \<and>
        (comparison r = ''noticeably_colder'') = (- 35 \<le> p \<and> p < - 15) \<and>
        (comparison r = ''significantly_colder'') = (p < - 35) \<and>
        arrow r = (if 5 < p then ArrowUp else if p < - 5 then ArrowDown else ArrowFlat) \<and>
        fullDisplay r = (if 5 \<le> \<bar>p\<bar> then ArrowPercent (arrow r) (Num (of_int \<bar>p\<bar>))
                         else ArrowOnly (arrow r)) \<and>
        htmlDisplay r = fullDisplay r)) \<and>
   (2 ^ 1024 \<le> fl (d * 5) \<longrightarrow>
      comparison (generateComparisonData (Num d) n) = ''significantly_hotter'' \<and>
      fullDisplay (generateComparisonData (Num d) n) = ArrowPercent ArrowUp PosInf) \<and>
   (fl (d * 5) \<le> - (2 ^ 1024) \<longrightarrow>
      comparison (generateComparisonData (Num d) n) = ''significantly_colder'' \<and>
      fullDisplay (generateComparisonData (Num d) n) = ArrowPercent ArrowDown PosInf) \<and>
   round (fl (1 * 5)) = 5 \<and>
   percentage (generateComparisonData (Num 1) n) = Num 5 \<and>
   comparison (generateComparisonData (Num 1) n) = ''same'' \<and>
   fullDisplay (generateComparisonData (Num 1) n) = ArrowPercent ArrowFlat (Num 5)"
proof -
  have finite: "\<bar>fl (d * 5)\<bar> < 2 ^ 1024 \<longrightarrow>
     (let p = round (fl (d * 5)); r = generateComparisonData (Num d) n in
        percentage r = Num (of_int \<bar>p\<bar>) \<and>
        (comparison r = ''significantly_hotter'') = (35 < p) \<and>
        (comparison r = ''noticeably_hotter'') = (15 < p \<and> p \<le> 35) \<and>
        (comparison r = ''hotter'') = (5 < p \<and> p \<le> 15) \<and>
        (comparison r = ''same'') = (- 5 \<le> p \<and> p \<le> 5) \<and>
        (comparison r = ''colder'') = (- 15 \<le> p \<and> p < - 5) \<and>
        (comparison r = ''noticeably_colder'') = (- 35 \<le> p \<and> p < - 15) \<and>
        (comparison r = ''significantly_colder'') = (p < - 35) \<and>
        arrow r = (if 5 < p then ArrowUp else if p < - 5 then ArrowDown else ArrowFlat) \<and>
        fullDisplay r = (if 5 \<le> \<bar>p\<bar> then ArrowPercent (arrow r) (Num (of_int \<bar>p\<bar>))
                         else ArrowOnly (arrow r)) \<and>
        htmlDisplay r = fullDisplay r)"
  proof
    assume "\<bar>fl (d * 5)\<bar> < 2 ^ 1024"
    then have "jsMul (Num d) (Num 5) = Num (fl (d * 5))"
      by (simp add: toDouble_finite)
    then show "let p = round (fl (d * 5)); r = generateComparisonData (Num d) n in
        percentage r = Num (of_int \<bar>p\<bar>) \<and>
        (comparison r = ''significantly_hotter'') = (35 < p) \<and>
        (comparison r = ''noticeably_hotter'') = (15 < p \<and> p \<le> 35) \<and>
        (comparison r = ''hotter'') = (5 < p \<and> p \<le> 15) \<and>
        (comparison r = ''same'') = (- 5 \<le> p \<and> p \<le> 5) \<and>
        (comparison r = ''colder'') = (- 15 \<le> p \<and> p < - 5) \<and>
        (comparison r = ''noticeably_colder'') = (- 35 \<le> p \<and> p < - 15) \<and>
        (comparison r = ''significantly_colder'') = (p < - 35) \<and>
        arrow r = (if 5 < p then ArrowUp else if p < - 5 then ArrowDown else ArrowFlat) \<and>
        fullDisplay r = (if 5 \<le> \<bar>p\<bar> then ArrowPercent (arrow r) (Num (of_int \<bar>p\<bar>))
                         else ArrowOnly (arrow r)) \<and>
        htmlDisplay r = fullDisplay r"
      by (simp add: generateComparisonData_Num Let_def)
  qed
  have up: "2 ^ 1024 \<le> fl (d * 5) \<longrightarrow>
      comparison (generateComparisonData (Num d) n) = ''significantly_hotter'' \<and>
      fullDisplay (generateComparisonData (Num d) n) = ArrowPercent ArrowUp PosInf"
    by (simp add: generateComparisonData_def toDouble_cases Let_def jsGt_def jsGe_def)
  have down: "fl (d * 5) \<le> - (2 ^ 1024) \<longrightarrow>
      comparison (generateComparisonData (Num d) n) = ''significantly_colder'' \<and>
      fullDisplay (generateComparisonData (Num d) n) = ArrowPercent ArrowDown PosInf"
  proof
    assume a: "fl (d * 5) \<le> - (2 ^ 1024)"
    have "(- (2 ^ 1024) :: real) < 2 ^ 1024" by simp
    with a have "\<not> 2 ^ 1024 \<le> fl (d * 5)" by linarith
    with a show "comparison (generateComparisonData (Num d) n) = ''significantly_colder'' \<and>
      fullDisplay (generateComparisonData (Num d) n) = ArrowPercent ArrowDown PosInf"
      by (simp add: generateComparisonData_def toDouble_cases Let_def jsGt_def jsGe_def)
  qed
  have m: "jsMul (Num 1) (Num 5) = Num 5"
    by (simp add: toDouble_finite fl_small_integers)
  have one: "round (fl (1 * 5)) = 5 \<and>
   percentage (generateComparisonData (Num 1) n) = Num 5 \<and>
   comparison (generateComparisonData (Num 1) n) = ''same'' \<and>
   fullDisplay (generateComparisonData (Num 1) n) = ArrowPercent ArrowFlat (Num 5)"
    by (simp add: generateComparisonData_Num [OF m] fl_small_integers Let_def)
  show ?thesis using finite up down one by blast
qed

theorem generateComparisonData_thresholds_witness:
  "\<bar>fl (3 * 5)\<bar> < 2 ^ 1024 \<and>
   round (fl (3 * 5)) = 15 \<and>
   comparison (generateComparisonData (Num 3) ''Today'') = ''hotter'' \<and>
   fullDisplay (generateComparisonData (Num 3) ''Today'') = ArrowPercent ArrowUp (Num 15)"
  using generateComparisonData_thresholds [of 3 "''Today''"]
  by (auto simp add: fl_small_integers Let_def)

text \<open>
  The rounding of the product is visible: for a PFI of 1.1 yesterday and 0 today the
  difference is the double next to -1.1, slightly below it; its fivefold rounds to
  exactly -5.5, which \<open>Math.round\<close> takes to -5, so the trend is same.
\<close>

lemma generateComparisonData_rounding_example:
  "jsSub (Num 0) (jsLit 1.1) = Num (- (2476979795053773 / 2251799813685248)) \<and>
   jsMul (jsSub (Num 0) (jsLit 1.1)) (Num 5) = Num (- (11 / 2)) \<and>
   percentage (generateComparisonData (jsSub (Num 0) (jsLit 1.1)) n) = Num 5 \<and>
   comparison (generateComparisonData (jsSub (Num 0) (jsLit 1.1)) n) = ''same''"
proof -
  have a: "jsSub (Num 0) (jsLit 1.1) = Num (- (2476979795053773 / 2251799813685248))"
    by (simp add: double_eval)
  have b: "jsMul (Num (- (2476979795053773 / 2251799813685248))) (Num 5) = Num (- (11 / 2))"
    by (simp add: double_eval)
  have c: "round (- (11 / 2) :: real) = - 5" by (simp add: round_def)
  have d: "percentage (generateComparisonData (Num (- (2476979795053773 / 2251799813685248))) n) = Num 5 \<and>
      comparison (generateComparisonData (Num (- (2476979795053773 / 2251799813685248))) n) = ''same''"
    by (simp add: generateComparisonData_Num [OF b] c Let_def)
  show ?thesis
    using b d by (simp only: a)
qed

section \<open>The precipitation pair of a day\<close>

text \<open>
  Rounding keeps the sign: the average of two temperatures whose sum is at most 0 is at
  most 0, and the average of two temperatures whose sum is at least \<open>2^(-1073)\<close> is above
  0. (Between the two, a sum of \<open>2^(-1074)\<close> halves to 0 in doubles.)
\<close>

lemma roundEven_nonpos: "y \<le> 0 \<Longrightarrow> roundEven y \<le> 0"
  unfolding roundEven_def Let_def by (auto; linarith)

lemma roundEven_ge: "real_of_int N \<le> y \<Longrightarrow> N \<le> roundEven y"
  unfolding roundEven_def Let_def by (auto; linarith)

lemma fl_nonpos:
  assumes "x \<le> 0"
  shows "fl x \<le> 0"
proof (cases "x = 0")
  case True
  then show ?thesis by (simp add: fl_def)
next
  case False
  define q where "q = max (expo x) (- 1022) - 52"
  have "x / 2 powi q \<le> 0" using assms by (simp add: divide_nonpos_pos)
  then have "real_of_int (roundEven (x / 2 powi q)) \<le> 0"
    using roundEven_nonpos by simp
  then have "real_of_int (roundEven (x / 2 powi q)) * 2 powi q \<le> 0"
    by (simp add: mult_nonpos_nonneg)
  then show ?thesis using False by (simp add: fl_def q_def Let_def)
qed

lemma fl_ge_power:
  assumes "- 1074 \<le> k" and "2 powi k \<le> x"
  shows "2 powi k \<le> fl x"
proof -
  have xpos: "0 < x" using assms(2) by (smt (verit) zero_less_power_int)
  then have x0: "x \<noteq> 0" by simp
  define q where "q = max (expo x) (- 1022) - 52"
  define u :: real where "u = 2 powi q"
  have upos: "0 < u" by (simp add: u_def)
  have flx: "fl x = real_of_int (roundEven (x / u)) * u"
    using x0 by (simp add: fl_def q_def u_def Let_def)
  show ?thesis
  proof (cases "q \<le> k")
    case True
    define N :: int where "N = 2 ^ nat (k - q)"
    have "(2::real) powi k = 2 powi (k - q) * 2 powi q"
      using power_int_add [of "2::real" "k - q" q] by simp
    also have "(2::real) powi (k - q) = real_of_int N"
      using True by (simp add: N_def power_int_def)
    finally have Nk: "(2::real) powi k = real_of_int N * u" by (simp add: u_def)
    then have "real_of_int N \<le> x / u"
      using assms(2) upos by (simp add: pos_le_divide_eq)
    then have "N \<le> roundEven (x / u)" by (rule roundEven_ge)
    then have "real_of_int N * u \<le> real_of_int (roundEven (x / u)) * u"
      using upos by (simp add: mult_right_mono)
    then show ?thesis using Nk flx by simp
  next
    case False
    then have "- 1074 < q" using assms(1) by linarith
    then have qe: "q = expo x - 52" by (auto simp add: q_def max_def split: if_splits)
    have "(2::real) powi q \<le> 2 powi (expo x)"
      by (rule power_int_increasing) (simp_all add: qe)
    also have "\<dots> \<le> \<bar>x\<bar>" by (rule expo_lower [OF x0])
    finally have "u \<le> x" using xpos by (simp add: u_def)
    then have "real_of_int 1 \<le> x / u" using upos by (simp add: pos_le_divide_eq)
    then have "1 \<le> roundEven (x / u)" by (rule roundEven_ge)
    then have "1 * u \<le> real_of_int (roundEven (x / u)) * u"
      using upos by (intro mult_right_mono) simp_all
    then have "u \<le> fl x" using flx by simp
    moreover have "(2::real) powi k \<le> 2 powi q"
      by (rule power_int_increasing) (use False in simp_all)
    ultimately show ?thesis by (simp add: u_def)
  qed
qed

lemma average_sign:
  "lo + hi \<le> 0 \<Longrightarrow> jsLe (jsHalf (jsAdd (Num lo) (Num hi))) (Num 0)"
  "2 powi (- 1073) \<le> lo + hi \<Longrightarrow> jsGt (jsHalf (jsAdd (Num lo) (Num hi))) (Num 0)"
proof -
  assume neg: "lo + hi \<le> 0"
  have a: "fl (lo + hi) \<le> 0" using neg by (rule fl_nonpos)
  then have b: "fl (fl (lo + hi) / 2) \<le> 0" by (intro fl_nonpos) simp
  have "(0::real) < 2 ^ 1024" by simp
  then show "jsLe (jsHalf (jsAdd (Num lo) (Num hi))) (Num 0)"
    using a b by (auto simp add: toDouble_cases)
next
  assume pos: "2 powi (- 1073) \<le> lo + hi"
  have a: "2 powi (- 1073) \<le> fl (lo + hi)" using pos by (intro fl_ge_power) simp_all
  have "(2::real) powi (- 1073) = 2 powi (- 1074) * 2 powi 1"
    using power_int_add [of "2::real" "- 1074" 1] by simp
  then have "2 powi (- 1074) \<le> fl (lo + hi) / 2" using a by simp
  then have b: "2 powi (- 1074) \<le> fl (fl (lo + hi) / 2)" by (intro fl_ge_power) simp_all
  have c: "(0::real) < 2 powi (- 1074)" by simp
  have d: "(0::real) < 2 ^ 1024" by simp
  have e: "0 < fl (lo + hi)" using a by (smt (verit) zero_less_power_int)
  have f: "0 < fl (fl (lo + hi) / 2)" using b c by linarith
  show "jsGt (jsHalf (jsAdd (Num lo) (Num hi))) (Num 0)"
    using d e f by (auto simp add: toDouble_cases jsGt_def)
qed

text \<open>
  C10. For every day \<open>i\<close> that \<open>calculatePFI\<close> processes, with \<open>avg\<close> the average of the
  day's two apparent temperatures as the script computes it and \<open>prob\<close> the day's
  \<open>precipitation_probability_max\<close> (0 when absent): when \<open>avg > 0\<close>, rain is \<open>prob\<close> and
  snow is 0; when \<open>avg \<le> 0\<close>, snow is \<open>prob\<close> and rain is 0; when \<open>avg\<close> is not a number
  both are 0. In terms of the temperatures themselves: a sum of at least \<open>2^(-1073)\<close>
  puts the probability on rain, a sum of at most 0 puts it on snow. So at most one of
  rain and snow is nonzero, they are never both above 30, and they are equal only when
  both are 0, where \<open>determinePrecipitationType\<close> returns nothing.
\<close>

theorem calculatePFI_precipitation_pair:
  assumes "i < length (time (daily wd))"
  shows "let avg = jsHalf (jsAdd (numAt (apparent_temperature_min (daily wd)) i)
                                 (numAt (apparent_temperature_max (daily wd)) i));
             prob = orZero (numAt (precipitation_probability_max (daily wd)) i)
         in \<exists>r s.
              precipitation (calculatePFI wd ! i) = Some \<lparr>rain = r, snow = s\<rparr> \<and>
              avgApparentTemp (calculatePFI wd ! i) = avg \<and>
              (jsGt avg (Num 0) \<longrightarrow> r = prob \<and> s = Num 0) \<and>
              (jsLe avg (Num 0) \<longrightarrow> s = prob \<and> r = Num 0) \<and>
              (\<not> jsGt avg (Num 0) \<and> \<not> jsLe avg (Num 0) \<longrightarrow> r = Num 0 \<and> s = Num 0) \<and>
              (\<forall>lo hi. numAt (apparent_temperature_min (daily wd)) i = Num lo \<and>
                       numAt (apparent_temperature_max (daily wd)) i = Num hi \<longrightarrow>
                 (2 powi (- 1073) \<le> lo + hi \<longrightarrow> r = prob \<and> s = Num 0) \<and>
                 (lo + hi \<le> 0 \<longrightarrow> s = prob \<and> r = Num 0)) \<and>
              (r = Num 0 \<or> s = Num 0) \<and>
              \<not> (jsGt r (Num 30) \<and> jsGt s (Num 30)) \<and>
              (r = s \<longrightarrow> r = Num 0 \<and> determinePrecipitationType r s = None)"
proof -
  define avg where "avg = jsHalf (jsAdd (numAt (apparent_temperature_min (daily wd)) i)
                                 (numAt (apparent_temperature_max (daily wd)) i))"
  define prob where "prob = orZero (numAt (precipitation_probability_max (daily wd)) i)"
  define r where "r = (if jsGt avg (Num 0) then prob else Num 0)"
  define s where "s = (if jsLe avg (Num 0) then prob else Num 0)"
  have excl: "\<not> (jsGt avg (Num 0) \<and> jsLe avg (Num 0))"
    by (cases avg) (auto simp add: jsGt_def)
  have pr: "precipitation (calculatePFI wd ! i) = Some \<lparr>rain = r, snow = s\<rparr>"
    and av: "avgApparentTemp (calculatePFI wd ! i) = avg"
    using assms
    by (simp_all add: nth_calculatePFI calculatePFIAt_def Let_def r_def s_def avg_def prob_def)
  have sel: "(jsGt avg (Num 0) \<longrightarrow> r = prob \<and> s = Num 0) \<and>
             (jsLe avg (Num 0) \<longrightarrow> s = prob \<and> r = Num 0) \<and>
             (\<not> jsGt avg (Num 0) \<and> \<not> jsLe avg (Num 0) \<longrightarrow> r = Num 0 \<and> s = Num 0)"
    using excl by (auto simp add: r_def s_def)
  have temps: "(2 powi (- 1073) \<le> lo + hi \<longrightarrow> r = prob \<and> s = Num 0) \<and>
               (lo + hi \<le> 0 \<longrightarrow> s = prob \<and> r = Num 0)"
    if "numAt (apparent_temperature_min (daily wd)) i = Num lo \<and>
        numAt (apparent_temperature_max (daily wd)) i = Num hi" for lo hi
    using that sel average_sign [of lo hi] by (auto simp add: avg_def)
  have zero: "r = Num 0 \<or> s = Num 0"
    using excl by (auto simp add: r_def s_def)
  have both: "\<not> (jsGt r (Num 30) \<and> jsGt s (Num 30))"
    using zero by (auto simp add: jsGt_def)
  have tie: "r = s \<longrightarrow> r = Num 0 \<and> determinePrecipitationType r s = None"
    using zero by (auto simp add: determinePrecipitationType_def)
  show ?thesis
    unfolding Let_def avg_def [symmetric] prob_def [symmetric]
    using pr av sel temps zero both tie by blast
qed

lemma sample8_temperatures:
  "numAt (apparent_temperature_min (daily (sampleWeek 8))) 3 = Num 13"
  "numAt (apparent_temperature_max (daily (sampleWeek 8))) 3 = Num 23"
  "numAt (precipitation_probability_max (daily (sampleWeek 8))) 3 = Num 65"
  "numAt (apparent_temperature_min (daily (sampleWeek 8))) 7 = Num (- 5)"
  "numAt (apparent_temperature_max (daily (sampleWeek 8))) 7 = Num (- 1)"
  "numAt (precipitation_probability_max (daily (sampleWeek 8))) 7 = Num 45"
  by (simp_all add: sampleWeek_def firstDays_def sampleDaily_def numAt_def)

theorem calculatePFI_precipitation_pair_witness:
  "3 < length (time (daily (sampleWeek 8))) \<and>
   7 < length (time (daily (sampleWeek 8))) \<and>
   numAt (apparent_temperature_min (daily (sampleWeek 8))) 3 = Num 13 \<and>
   numAt (apparent_temperature_max (daily (sampleWeek 8))) 3 = Num 23 \<and>
   2 powi (- 1073) \<le> (13 + 23 :: real) \<and>
   precipitation (calculatePFI (sampleWeek 8) ! 3) = Some \<lparr>rain = Num 65, snow = Num 0\<rparr> \<and>
   numAt (apparent_temperature_min (daily (sampleWeek 8))) 7 = Num (- 5) \<and>
   numAt (apparent_temperature_max (daily (sampleWeek 8))) 7 = Num (- 1) \<and>
   (- 5 + - 1 :: real) \<le> 0 \<and>
   precipitation (calculatePFI (sampleWeek 8) ! 7) = Some \<lparr>rain = Num 0, snow = Num 45\<rparr>"
proof -
  have p: "(2::real) powi (- 1073) \<le> 13 + 23"
    by (simp add: power_int_def power_one_over)
  have d3: "precipitation (calculatePFI (sampleWeek 8) ! 3) = Some \<lparr>rain = Num 65, snow = Num 0\<rparr>"
    using calculatePFI_precipitation_pair [of 3 "sampleWeek 8"] p
    by (auto simp add: sample_lengths sample8_temperatures Let_def)
  have d7: "precipitation (calculatePFI (sampleWeek 8) ! 7) = Some \<lparr>rain = Num 0, snow = Num 45\<rparr>"
    using calculatePFI_precipitation_pair [of 7 "sampleWeek 8"]
    by (auto simp add: sample_lengths sample8_temperatures Let_def)
  show ?thesis
    using p d3 d7 by (simp add: sample_lengths sample8_temperatures)
qed

section \<open>The window length guard\<close>

text \<open>
  C2, as stated, fails: the guard is \<open>pfiData.length < 7\<close>, so a window of eight entries
  (what the request \<open>past_days=1&forecast_days=7\<close> asks for) is accepted and a result is
  returned.
\<close>

theorem generateComparisons_eight_days_counterexample:
  "length (calculatePFI (sampleWeek 8)) = 8 \<and>
   (\<exists>c. generateComparisons utc (noonOn 1) (calculatePFI (sampleWeek 8)) (Num 18) (sampleWeek 8)
          = Inr c)"
  by (simp add: generateComparisons_def length_calculatePFI sample_lengths Let_def)

text \<open>
  C2, amended. \<open>generateComparisons\<close> raises the insufficient-data error exactly for the
  windows of fewer than 7 entries, and returns a result for every window of 7 or more
  entries; no other error is raised.
\<close>

theorem generateComparisons_length_guard:
  "(generateComparisons z now pfiData currentTemp wd = Inl NotEnoughWeatherData)
     = (length pfiData < 7) \<and>
   (\<exists>c. generateComparisons z now pfiData currentTemp wd = Inr c) = (7 \<le> length pfiData) \<and>
   generateComparisons z now pfiData currentTemp wd \<noteq> Inl TypeError"
  by (auto simp add: generateComparisons_def Let_def)

section \<open>The forward slots\<close>

lemma nth_forward_slots: "i < 6 \<Longrightarrow> [Suc 0..<7] ! i = Suc i"
  by simp

lemma objAt_drop_1: "objAt (drop (Suc 0) xs) (Suc i) = objAt xs (Suc (Suc i))"
  by (auto simp add: objAt_def)

lemma hazardAt_drop_1: "hazardAt (drop (Suc 0) hs) (Suc i) = hazardAt hs (Suc (Suc i))"
  by (simp add: hazardAt_def objAt_drop_1)

lemma generateComparisons_Inr:
  assumes "generateComparisons z now pfiData currentTemp wd = Inr c"
  shows "7 \<le> length pfiData"
    and "weekPFI c = generateWeekPFI z now (drop 1 pfiData)"
    and "weekPrecipitation c =
           map (\<lambda>i. case objAt (drop 1 pfiData) i of
                       None \<Rightarrow> noDisplay
                     | Some dayData \<Rightarrow> precipitationDisplayOf (precipitation dayData))
               [1..<7]"
    and "weekHazards c =
           map (\<lambda>i. getHazardDisplay (hazardAt (drop 1 (detectHazards wd)) i)) [1..<7]"
    and "todayHazard c = getHazardDisplay (hazardAt (detectHazards wd) 1)"
    and "todayPrecipitation c = precipitationDisplayOf (precipitation (pfiData ! 1))"
  using assms
  by (auto simp add: generateComparisons_def Let_def split: if_splits)

lemma generateComparisons_returns:
  "7 \<le> length pfiData \<Longrightarrow> \<exists>c. generateComparisons z now pfiData currentTemp wd = Inr c"
  by (simp add: generateComparisons_def Let_def)

lemma weekPFI_pfiValues_slot:
  "i < 6 \<Longrightarrow> pfiValues (generateWeekPFI z now (drop (Suc 0) pfiData)) ! i =
     (case objAt pfiData (Suc (Suc i)) of None \<Rightarrow> None | Some e \<Rightarrow> pfi e)"
  by (simp add: generateWeekPFI_def nth_forward_slots objAt_drop_1 split: option.splits)


lemma weekPFI_lengths:
  "length (dayNames (generateWeekPFI z now xs)) = 6"
  "length (pfiValues (generateWeekPFI z now xs)) = 6"
  by (simp_all add: generateWeekPFI_def)

lemma weekPrecipitation_slot:
  assumes "generateComparisons z now pfiData currentTemp wd = Inr c" and "i < 6"
  shows "weekPrecipitation c ! i =
           (case objAt pfiData (Suc (Suc i)) of
              None \<Rightarrow> noDisplay
            | Some dayData \<Rightarrow> precipitationDisplayOf (precipitation dayData))"
  using assms(2)
  by (simp add: generateComparisons_Inr(3) [OF assms(1)] nth_forward_slots objAt_drop_1
        cong: option.case_cong)

lemma weekHazards_slot:
  assumes "generateComparisons z now pfiData currentTemp wd = Inr c" and "i < 6"
  shows "weekHazards c ! i = getHazardDisplay (hazardAt (detectHazards wd) (Suc (Suc i)))"
  using assms(2)
  by (simp add: generateComparisons_Inr(4) [OF assms(1)] nth_forward_slots hazardAt_drop_1)

lemma calculatePFI_fields:
  assumes "i < length (time (daily wd))"
  shows "date (calculatePFI wd ! i) = Some (time (daily wd) ! i)"
    and "\<exists>v. pfi (calculatePFI wd ! i) = Some v"
  using assms by (simp_all add: nth_calculatePFI calculatePFIAt_def Let_def)

lemma sample7_returns:
  "\<exists>c. generateComparisons z now (calculatePFI (sampleWeek 7)) (Num 18) (sampleWeek 7) = Inr c"
  by (simp add: generateComparisons_returns length_calculatePFI sample_lengths)

lemma sample8_returns:
  "\<exists>c. generateComparisons z now (calculatePFI (sampleWeek 8)) (Num 18) (sampleWeek 8) = Inr c"
  by (simp add: generateComparisons_returns length_calculatePFI sample_lengths)

lemma sample7_hazard_6: "detectHazards (sampleWeek 7) ! 6 = Some ''Fire Risk''"
  by (simp add: nth_detectHazards sample_lengths detectHazardAt_firstMatch
        sample7_readings_6 fire_risk_first)




text \<open>
  C1, as stated, fails on a window of exactly seven days: the three loops read index
  \<open>i + 2\<close>, which for the last slot is index 7, past the end of the window. Slot 5 then
  holds \<open>null\<close> and two empty displays, which is the PFI of no day of the window.
\<close>

theorem generateComparisons_slot_5_counterexample:
  "\<exists>c. generateComparisons utc (noonOn 1) (calculatePFI (sampleWeek 7)) (Num 18) (sampleWeek 7) = Inr c \<and>
       length (calculatePFI (sampleWeek 7)) = 7 \<and>
       pfiValues (weekPFI c) ! 5 = None \<and>
       \<not> (\<forall>i<6. \<exists>j<7. slotFromDay c (calculatePFI (sampleWeek 7)) (sampleWeek 7) i j)"
proof -
  obtain c where c:
    "generateComparisons utc (noonOn 1) (calculatePFI (sampleWeek 7)) (Num 18) (sampleWeek 7) = Inr c"
    using sample7_returns by blast
  have len: "length (calculatePFI (sampleWeek 7)) = 7"
    by (simp add: length_calculatePFI sample_lengths)
  have null: "pfiValues (weekPFI c) ! 5 = None"
    by (simp add: generateComparisons_Inr(2) [OF c] weekPFI_pfiValues_slot objAt_def len)
  have "\<not> slotFromDay c (calculatePFI (sampleWeek 7)) (sampleWeek 7) 5 j" if "j < 7" for j
    using calculatePFI_fields(2) [of j "sampleWeek 7"] that null
    by (auto simp add: slotFromDay_def sample_lengths)
  then have "\<not> (\<exists>j<7. slotFromDay c (calculatePFI (sampleWeek 7)) (sampleWeek 7) 5 j)"
    by blast
  moreover have "(5::nat) < 6" by simp
  ultimately
  have "\<not> (\<forall>i<6. \<exists>j<7. slotFromDay c (calculatePFI (sampleWeek 7)) (sampleWeek 7) i j)"
    by blast
  with c len null show ?thesis by blast
qed

text \<open>
  C1, amended. For every window that \<open>generateComparisons\<close> accepts and every forward
  slot \<open>i\<close> in 0..5 whose day index \<open>i + 2\<close> lies inside the window and inside the
  response (slots 0..4 of a window of seven days), \<open>weekPFI.pfiValues[i]\<close>,
  \<open>weekPrecipitation[i]\<close> and \<open>weekHazards[i]\<close> are the PFI, the precipitation display
  and the hazard display of that one day \<open>i + 2\<close>.
\<close>

theorem generateComparisons_slots_aligned:
  assumes "generateComparisons z now pfiData currentTemp wd = Inr c"
    and "i < 6"
    and "i + 2 < length pfiData"
    and "i + 2 < length (time (daily wd))"
  shows "slotFromDay c pfiData wd i (i + 2)"
proof -
  have pv: "pfiValues (weekPFI c) ! i = pfi (pfiData ! (i + 2))"
    using assms(2,3)
    by (simp add: generateComparisons_Inr(2) [OF assms(1)] weekPFI_pfiValues_slot objAt_def)
  have pr: "weekPrecipitation c ! i = precipitationDisplayOf (precipitation (pfiData ! (i + 2)))"
    using assms(3) by (simp add: weekPrecipitation_slot [OF assms(1,2)] objAt_def)
  have hz: "weekHazards c ! i = getHazardDisplay (detectHazards wd ! (i + 2))"
    using assms(4)
    by (simp add: weekHazards_slot [OF assms(1,2)] hazardAt_def objAt_def length_detectHazards)
  show ?thesis
    using pv pr hz by (simp add: slotFromDay_def)
qed

theorem generateComparisons_slots_aligned_witness:
  "\<exists>c. generateComparisons utc (noonOn 1) (calculatePFI (sampleWeek 7)) (Num 18) (sampleWeek 7) = Inr c \<and>
       (4::nat) < 6 \<and>
       4 + 2 < length (calculatePFI (sampleWeek 7)) \<and>
       4 + 2 < length (time (daily (sampleWeek 7))) \<and>
       slotFromDay c (calculatePFI (sampleWeek 7)) (sampleWeek 7) 4 (4 + 2) \<and>
       label (weekHazards c ! 4) = ''Fire Risk''"
proof -
  obtain c where c:
    "generateComparisons utc (noonOn 1) (calculatePFI (sampleWeek 7)) (Num 18) (sampleWeek 7) = Inr c"
    using sample7_returns by blast
  have slot: "slotFromDay c (calculatePFI (sampleWeek 7)) (sampleWeek 7) 4 (4 + 2)"
    using generateComparisons_slots_aligned [OF c, of 4]
    by (simp add: length_calculatePFI sample_lengths)
  then have "label (weekHazards c ! 4) = ''Fire Risk''"
    by (simp add: slotFromDay_def sample7_hazard_6 getHazardDisplay_def hazardDisplay_def)
  with c slot show ?thesis
    by (auto simp add: length_calculatePFI sample_lengths)
qed






section \<open>Rendering: a hazard hides the precipitation\<close>

lemma displayToday_dayItems: "dayItems (displayToday c p) = dayItems p"
  by (simp add: displayToday_def Let_def split: option.splits)

lemma displayWeek_range:
  "n \<le> length items \<Longrightarrow>
   \<exists>items'. displayWeek c [m..<n] items = Inr items' \<and>
     length items' = length items \<and>
     (\<forall>i<length items.
        items' ! i = (if m \<le> i \<and> i < n then displayDay c i (items ! i) else items ! i))"
proof (induction "n - m" arbitrary: m items)
  case 0
  then show ?case by auto
next
  case (Suc k)
  then have mn: "m < n" and k: "k = n - Suc m" by simp_all
  let ?items = "items[m := displayDay c m (items ! m)]"
  have len: "n \<le> length ?items" using Suc.prems by simp
  obtain items' where step: "displayWeek c [Suc m..<n] ?items = Inr items'"
    and l: "length items' = length ?items"
    and each: "\<forall>i<length ?items.
         items' ! i = (if Suc m \<le> i \<and> i < n then displayDay c i (?items ! i) else ?items ! i)"
    using Suc.hyps(1) [OF k len] by blast
  have "displayWeek c [m..<n] items = Inr items'"
    using mn Suc.prems step by (simp add: upt_conv_Cons)
  moreover have "length items' = length items" using l by simp
  moreover have "items' ! i = (if m \<le> i \<and> i < n then displayDay c i (items ! i) else items ! i)"
    if "i < length items" for i
  proof (cases "i = m")
    case True
    then show ?thesis using each that mn by simp
  next
    case False
    then have "(Suc m \<le> i) = (m \<le> i)" by auto
    then show ?thesis using each that False by simp
  qed
  ultimately show ?case by blast
qed

lemma displayWeek_short:
  "length items < n \<Longrightarrow> m \<le> length items \<Longrightarrow> displayWeek c [m..<n] items = Inl TypeError"
proof (induction "length items - m" arbitrary: m items)
  case 0
  then show ?case by (simp add: upt_conv_Cons)
next
  case (Suc k)
  then have "m < length items" by simp
  moreover have "displayWeek c [Suc m..<n] (items[m := displayDay c m (items ! m)]) = Inl TypeError"
    using Suc.hyps(1) [of "items[m := displayDay c m (items ! m)]" "Suc m"] Suc.hyps(2) Suc.prems
    by simp
  ultimately show ?case using Suc.prems by (simp add: upt_conv_Cons)
qed

lemma displayResults_returns:
  "(\<exists>p'. displayResults c p = Inr p') = (length (dayNames (weekPFI c)) \<le> length (dayItems p))"
proof (cases "length (dayNames (weekPFI c)) \<le> length (dayItems p)")
  case True
  then show ?thesis
    using displayWeek_range [of "length (dayNames (weekPFI c))" "dayItems (displayToday c p)" c 0]
    by (auto simp add: displayResults_def Let_def displayToday_dayItems)
next
  case False
  then show ?thesis
    using displayWeek_short [of "dayItems (displayToday c p)" "length (dayNames (weekPFI c))" 0 c]
    by (simp add: displayResults_def Let_def displayToday_dayItems)
qed

lemma displayResults_Inr:
  assumes "displayResults c p = Inr p'"
  shows "hazardToday p' = hazardToday (displayToday c p)"
    and "precipitationToday p' = precipitationToday (displayToday c p)"
    and "i < length (dayNames (weekPFI c)) \<Longrightarrow> i < length (dayItems p) \<and>
           dayItems p' ! i = displayDay c i (dayItems p ! i)"
proof -
  have le: "length (dayNames (weekPFI c)) \<le> length (dayItems p)"
    using assms displayResults_returns by blast
  obtain items' where w: "displayWeek c [0..<length (dayNames (weekPFI c))] (dayItems p) = Inr items'"
    and each: "\<forall>i<length (dayItems p). items' ! i =
        (if 0 \<le> i \<and> i < length (dayNames (weekPFI c)) then displayDay c i (dayItems p ! i)
         else dayItems p ! i)"
    using displayWeek_range [OF le, of c 0] by blast
  have p': "p' = (displayToday c p)\<lparr>dayItems := items'\<rparr>"
    using assms w by (simp add: displayResults_def Let_def displayToday_dayItems)
  show "hazardToday p' = hazardToday (displayToday c p)"
    by (simp add: p')
  show "precipitationToday p' = precipitationToday (displayToday c p)"
    by (simp add: p')
  show "i < length (dayNames (weekPFI c)) \<Longrightarrow> i < length (dayItems p) \<and>
           dayItems p' ! i = displayDay c i (dayItems p ! i)"
    using le each by (simp add: p')
qed

lemma displayToday_badges:
  "shown (todayHazard c) \<Longrightarrow>
     styleDisplay (hazardToday (displayToday c p)) = DisplayFlex \<and>
     iconInnerHTML (hazardToday (displayToday c p)) = icon (todayHazard c) \<and>
     labelTextContent (hazardToday (displayToday c p)) = label (todayHazard c) \<and>
     iconClassName (hazardToday (displayToday c p)) =
       ''hazard-icon '' @ classText (colorClass (todayHazard c)) \<and>
     labelClassName (hazardToday (displayToday c p)) =
       ''hazard-label '' @ classText (colorClass (todayHazard c)) \<and>
     styleDisplay (precipitationToday (displayToday c p)) = DisplayNone"
  "\<not> shown (todayHazard c) \<Longrightarrow> shown (todayPrecipitation c) \<Longrightarrow>
     styleDisplay (precipitationToday (displayToday c p)) = DisplayFlex \<and>
     iconInnerHTML (precipitationToday (displayToday c p)) = icon (todayPrecipitation c) \<and>
     labelTextContent (precipitationToday (displayToday c p)) = label (todayPrecipitation c) \<and>
     styleDisplay (hazardToday (displayToday c p)) = DisplayNone"
  "\<not> shown (todayHazard c) \<Longrightarrow> \<not> shown (todayPrecipitation c) \<Longrightarrow>
     styleDisplay (precipitationToday (displayToday c p)) = DisplayNone \<and>
     styleDisplay (hazardToday (displayToday c p)) = DisplayNone"
  by (simp_all add: displayToday_def Let_def)

lemma displayDay_badges:
  "i < length (weekHazards c) \<and> shown (weekHazards c ! i) \<Longrightarrow>
     styleDisplay (hazardWeek (displayDay c i item)) = DisplayFlex \<and>
     iconInnerHTML (hazardWeek (displayDay c i item)) = icon (weekHazards c ! i) \<and>
     iconClassName (hazardWeek (displayDay c i item)) =
       ''hazard-icon '' @ classText (colorClass (weekHazards c ! i)) \<and>
     styleDisplay (precipitationWeek (displayDay c i item)) = DisplayNone"
  "\<not> (i < length (weekHazards c) \<and> shown (weekHazards c ! i)) \<Longrightarrow>
   i < length (weekPrecipitation c) \<and> shown (weekPrecipitation c ! i) \<Longrightarrow>
     styleDisplay (precipitationWeek (displayDay c i item)) = DisplayFlex \<and>
     iconInnerHTML (precipitationWeek (displayDay c i item)) = icon (weekPrecipitation c ! i) \<and>
     styleDisplay (hazardWeek (displayDay c i item)) = DisplayNone"
  "\<not> (i < length (weekHazards c) \<and> shown (weekHazards c ! i)) \<Longrightarrow>
   \<not> (i < length (weekPrecipitation c) \<and> shown (weekPrecipitation c ! i)) \<Longrightarrow>
     styleDisplay (precipitationWeek (displayDay c i item)) = DisplayNone \<and>
     styleDisplay (hazardWeek (displayDay c i item)) = DisplayNone"
  by (auto simp add: displayDay_def Let_def objAt_def split: option.splits)

text \<open>
  C8. Whenever \<open>displayResults\<close> renders a result, for today and for every forward slot
  (every index of \<open>dayNames\<close>): if the slot's hazard display has \<open>show\<close> set, the hazard
  container is shown (\<open>flex\<close>) with the icon, the colour class and, for today, the label
  of that hazard display, and the precipitation container of the same slot is hidden
  (\<open>none\<close>); without a hazard, a precipitation display with \<open>show\<close> set is shown with its
  own icon and the hazard container is hidden; with neither, both are hidden. In no
  case are both containers of a slot shown.
\<close>

theorem displayResults_hazard_over_precipitation:
  assumes "displayResults c p = Inr p'"
  shows "(shown (todayHazard c) \<longrightarrow>
            styleDisplay (hazardToday p') = DisplayFlex \<and>
            iconInnerHTML (hazardToday p') = icon (todayHazard c) \<and>
            labelTextContent (hazardToday p') = label (todayHazard c) \<and>
            iconClassName (hazardToday p') =
              ''hazard-icon '' @ classText (colorClass (todayHazard c)) \<and>
            labelClassName (hazardToday p') =
              ''hazard-label '' @ classText (colorClass (todayHazard c)) \<and>
            styleDisplay (precipitationToday p') = DisplayNone) \<and>
         (\<not> shown (todayHazard c) \<and> shown (todayPrecipitation c) \<longrightarrow>
            styleDisplay (precipitationToday p') = DisplayFlex \<and>
            iconInnerHTML (precipitationToday p') = icon (todayPrecipitation c) \<and>
            labelTextContent (precipitationToday p') = label (todayPrecipitation c) \<and>
            styleDisplay (hazardToday p') = DisplayNone) \<and>
         (\<not> shown (todayHazard c) \<and> \<not> shown (todayPrecipitation c) \<longrightarrow>
            styleDisplay (precipitationToday p') = DisplayNone \<and>
            styleDisplay (hazardToday p') = DisplayNone) \<and>
         \<not> (styleDisplay (hazardToday p') = DisplayFlex \<and>
            styleDisplay (precipitationToday p') = DisplayFlex) \<and>
         (\<forall>i<length (dayNames (weekPFI c)).
            (i < length (weekHazards c) \<and> shown (weekHazards c ! i) \<longrightarrow>
               styleDisplay (hazardWeek (dayItems p' ! i)) = DisplayFlex \<and>
               iconInnerHTML (hazardWeek (dayItems p' ! i)) = icon (weekHazards c ! i) \<and>
               iconClassName (hazardWeek (dayItems p' ! i)) =
                 ''hazard-icon '' @ classText (colorClass (weekHazards c ! i)) \<and>
               styleDisplay (precipitationWeek (dayItems p' ! i)) = DisplayNone) \<and>
            (\<not> (i < length (weekHazards c) \<and> shown (weekHazards c ! i)) \<and>
             i < length (weekPrecipitation c) \<and> shown (weekPrecipitation c ! i) \<longrightarrow>
               styleDisplay (precipitationWeek (dayItems p' ! i)) = DisplayFlex \<and>
               iconInnerHTML (precipitationWeek (dayItems p' ! i)) =
                 icon (weekPrecipitation c ! i) \<and>
               styleDisplay (hazardWeek (dayItems p' ! i)) = DisplayNone) \<and>
            (\<not> (i < length (weekHazards c) \<and> shown (weekHazards c ! i)) \<and>
             \<not> (i < length (weekPrecipitation c) \<and> shown (weekPrecipitation c ! i)) \<longrightarrow>
               styleDisplay (precipitationWeek (dayItems p' ! i)) = DisplayNone \<and>
               styleDisplay (hazardWeek (dayItems p' ! i)) = DisplayNone) \<and>
            \<not> (styleDisplay (hazardWeek (dayItems p' ! i)) = DisplayFlex \<and>
               styleDisplay (precipitationWeek (dayItems p' ! i)) = DisplayFlex))"
proof -
  have today:
    "(shown (todayHazard c) \<longrightarrow>
            styleDisplay (hazardToday p') = DisplayFlex \<and>
            iconInnerHTML (hazardToday p') = icon (todayHazard c) \<and>
            labelTextContent (hazardToday p') = label (todayHazard c) \<and>
            iconClassName (hazardToday p') =
              ''hazard-icon '' @ classText (colorClass (todayHazard c)) \<and>
            labelClassName (hazardToday p') =
              ''hazard-label '' @ classText (colorClass (todayHazard c)) \<and>
            styleDisplay (precipitationToday p') = DisplayNone) \<and>
         (\<not> shown (todayHazard c) \<and> shown (todayPrecipitation c) \<longrightarrow>
            styleDisplay (precipitationToday p') = DisplayFlex \<and>
            iconInnerHTML (precipitationToday p') = icon (todayPrecipitation c) \<and>
            labelTextContent (precipitationToday p') = label (todayPrecipitation c) \<and>
            styleDisplay (hazardToday p') = DisplayNone) \<and>
         (\<not> shown (todayHazard c) \<and> \<not> shown (todayPrecipitation c) \<longrightarrow>
            styleDisplay (precipitationToday p') = DisplayNone \<and>
            styleDisplay (hazardToday p') = DisplayNone) \<and>
         \<not> (styleDisplay (hazardToday p') = DisplayFlex \<and>
            styleDisplay (precipitationToday p') = DisplayFlex)"
    unfolding displayResults_Inr(1,2) [OF assms]
    using displayToday_badges [of c p] by (cases "shown (todayHazard c)"; cases "shown (todayPrecipitation c)") simp_all
  have week:
    "(i < length (weekHazards c) \<and> shown (weekHazards c ! i) \<longrightarrow>
               styleDisplay (hazardWeek (dayItems p' ! i)) = DisplayFlex \<and>
               iconInnerHTML (hazardWeek (dayItems p' ! i)) = icon (weekHazards c ! i) \<and>
               iconClassName (hazardWeek (dayItems p' ! i)) =
                 ''hazard-icon '' @ classText (colorClass (weekHazards c ! i)) \<and>
               styleDisplay (precipitationWeek (dayItems p' ! i)) = DisplayNone) \<and>
            (\<not> (i < length (weekHazards c) \<and> shown (weekHazards c ! i)) \<and>
             i < length (weekPrecipitation c) \<and> shown (weekPrecipitation c ! i) \<longrightarrow>
               styleDisplay (precipitationWeek (dayItems p' ! i)) = DisplayFlex \<and>
               iconInnerHTML (precipitationWeek (dayItems p' ! i)) =
                 icon (weekPrecipitation c ! i) \<and>
               styleDisplay (hazardWeek (dayItems p' ! i)) = DisplayNone) \<and>
            (\<not> (i < length (weekHazards c) \<and> shown (weekHazards c ! i)) \<and>
             \<not> (i < length (weekPrecipitation c) \<and> shown (weekPrecipitation c ! i)) \<longrightarrow>
               styleDisplay (precipitationWeek (dayItems p' ! i)) = DisplayNone \<and>
               styleDisplay (hazardWeek (dayItems p' ! i)) = DisplayNone) \<and>
            \<not> (styleDisplay (hazardWeek (dayItems p' ! i)) = DisplayFlex \<and>
               styleDisplay (precipitationWeek (dayItems p' ! i)) = DisplayFlex)"
    if "i < length (dayNames (weekPFI c))" for i
  proof -
    have eq: "dayItems p' ! i = displayDay c i (dayItems p ! i)"
      using displayResults_Inr(3) [OF assms that] by simp
    show ?thesis
      unfolding eq
      using displayDay_badges [of i c "dayItems p ! i"]
      by (cases "i < length (weekHazards c) \<and> shown (weekHazards c ! i)";
          cases "i < length (weekPrecipitation c) \<and> shown (weekPrecipitation c ! i)") simp_all
  qed
  show ?thesis using today week by blast
qed

text \<open>
  Today (day 1) and day 5 of the sample qualify for both displays: Heavy Rain, and rain
  expected at 75 percent. Day 5 is forward slot 3.
\<close>

lemma sample8_hazard_1:
  "hazardAt (detectHazards (sampleWeek 8)) (Suc 0) = Some ''Heavy Rain''"
  by (simp add: hazardAt_def objAt_def length_detectHazards nth_detectHazards sample_lengths
        detectHazardAt_def Let_def sampleWeek_def firstDays_def sampleDaily_def numAt_def
        jsGe_def jsGt_def)

lemma sample8_precipitation_1:
  "precipitation (calculatePFI (sampleWeek 8) ! Suc 0) =
     Some \<lparr>rain = Num 75, snow = Num 0\<rparr>"
  by (simp add: nth_calculatePFI sample_lengths calculatePFIAt_def jsGt_def
        sampleWeek_def firstDays_def sampleDaily_def numAt_def double_eval)

lemma sample8_hazard_5: "hazardAt (detectHazards (sampleWeek 8)) 5 = Some ''Heavy Rain''"
  by (simp add: hazardAt_def objAt_def length_detectHazards nth_detectHazards sample_lengths
        detectHazardAt_def Let_def sampleWeek_def firstDays_def sampleDaily_def numAt_def
        jsGe_def jsGt_def)

lemma sample8_precipitation_5:
  "objAt (calculatePFI (sampleWeek 8)) 5 = Some (calculatePFI (sampleWeek 8) ! 5)"
  "precipitation (calculatePFI (sampleWeek 8) ! 5) = Some \<lparr>rain = Num 75, snow = Num 0\<rparr>"
  by (simp_all add: objAt_def length_calculatePFI nth_calculatePFI sample_lengths
        calculatePFIAt_def jsGt_def sampleWeek_def firstDays_def sampleDaily_def numAt_def
        double_eval)

lemma heavy_rain_display:
  "getHazardDisplay (Some ''Heavy Rain'') =
     \<lparr>icon = materialSymbol ''flood'', label = ''Heavy Rain'', shown = True,
      colorClass = Some ''hazard-cold''\<rparr>"
  by (simp add: getHazardDisplay_def hazardDisplay_def)

theorem displayResults_hazard_over_precipitation_witness:
  "\<exists>c p'.
     generateComparisons utc (noonOn 1) (calculatePFI (sampleWeek 8)) (Num 18) (sampleWeek 8)
       = Inr c \<and>
     displayResults c emptyPage = Inr p' \<and>
     shown (todayHazard c) \<and>
     shown (todayPrecipitation c) \<and>
     styleDisplay (hazardToday p') = DisplayFlex \<and>
     iconInnerHTML (hazardToday p') = materialSymbol ''flood'' \<and>
     labelTextContent (hazardToday p') = ''Heavy Rain'' \<and>
     styleDisplay (precipitationToday p') = DisplayNone \<and>
     3 < length (dayNames (weekPFI c)) \<and>
     3 < length (weekHazards c) \<and>
     shown (weekHazards c ! 3) \<and>
     shown (weekPrecipitation c ! 3) \<and>
     styleDisplay (hazardWeek (dayItems p' ! 3)) = DisplayFlex \<and>
     iconInnerHTML (hazardWeek (dayItems p' ! 3)) = materialSymbol ''flood'' \<and>
     styleDisplay (precipitationWeek (dayItems p' ! 3)) = DisplayNone"
proof -
  obtain c where c:
    "generateComparisons utc (noonOn 1) (calculatePFI (sampleWeek 8)) (Num 18) (sampleWeek 8)
       = Inr c"
    using sample8_returns by blast
  have names: "length (dayNames (weekPFI c)) = 6"
    by (simp add: generateComparisons_Inr(2) [OF c] weekPFI_lengths)
  have hlen: "length (weekHazards c) = 6"
    by (simp add: generateComparisons_Inr(4) [OF c])
  obtain p' where p': "displayResults c emptyPage = Inr p'"
    using displayResults_returns [of c emptyPage] names by (auto simp add: emptyPage_def)
  have wh: "weekHazards c ! 3 = getHazardDisplay (Some ''Heavy Rain'')"
    by (simp add: weekHazards_slot [OF c] sample8_hazard_5)
  have pr: "shown (weekPrecipitation c ! 3)"
    by (simp add: weekPrecipitation_slot [OF c] sample8_precipitation_5
          precipitationDisplayOf_def determinePrecipitationType_def getPrecipitationDisplay_def
          jsGt_def)
  have th: "todayHazard c = getHazardDisplay (Some ''Heavy Rain'')"
    by (simp add: generateComparisons_Inr(5) [OF c] sample8_hazard_1)
  have tp: "shown (todayPrecipitation c)"
    by (simp add: generateComparisons_Inr(6) [OF c] sample8_precipitation_1
          precipitationDisplayOf_def determinePrecipitationType_def getPrecipitationDisplay_def
          jsGt_def)
  have "styleDisplay (hazardToday p') = DisplayFlex \<and>
        iconInnerHTML (hazardToday p') = materialSymbol ''flood'' \<and>
        labelTextContent (hazardToday p') = ''Heavy Rain'' \<and>
        styleDisplay (precipitationToday p') = DisplayNone \<and>
        styleDisplay (hazardWeek (dayItems p' ! 3)) = DisplayFlex \<and>
        iconInnerHTML (hazardWeek (dayItems p' ! 3)) = materialSymbol ''flood'' \<and>
        styleDisplay (precipitationWeek (dayItems p' ! 3)) = DisplayNone"
    using displayResults_hazard_over_precipitation [OF p'] names hlen
    by (simp add: th wh heavy_rain_display)
  with c p' names hlen pr tp show ?thesis
    by (auto simp add: th wh heavy_rain_display)
qed

section \<open>The mock path against the live path\<close>

text \<open>
  C9 fails on the code. With a mock PFI of 20 for yesterday and 21.0625 for today the
  difference is 1.0625 degrees, exact in doubles: the mock chain tests \<open>1.0625 > 1\<close> and
  answers hotter, while the live chain rounds \<open>1.0625 * 5 = 5.3125\<close> to 5, tests \<open>5 > 5\<close>
  and answers same.
\<close>

theorem generateMockComparisons_trend_differs:
  "\<exists>c. generateMockComparisons True sampleMockConfig utc (noonOn 1) = Inr c \<and>
       comparisonOf (todayComparison c) = ''hotter'' \<and>
       comparison (generateComparisonData (jsSub (Num 21.0625) (Num 20)) ''Today'') = ''same''"
proof -
  have diff: "jsSub (Num 21.0625) (Num 20) = Num (17 / 16)"
    by (simp add: double_eval)
  have prod: "jsMul (Num (17 / 16)) (Num 5) = Num (85 / 16)"
    by (simp add: double_eval)
  have r: "round (85 / 16 :: real) = 5" by (simp add: round_def)
  have "comparison (generateComparisonData (Num (17 / 16)) ''Today'') = ''same''"
    by (simp add: generateComparisonData_Num [OF prod] r Let_def)
  then have live:
    "comparison (generateComparisonData (jsSub (Num 21.0625) (Num 20)) ''Today'') = ''same''"
    by (simp only: diff)
  have mock: "\<exists>c. generateMockComparisons True sampleMockConfig utc (noonOn 1) = Inr c \<and>
       comparisonOf (todayComparison c) = ''hotter''"
    by (simp add: generateMockComparisons_def getMockConfig_def sampleMockConfig_def Let_def
          mockComparison_def jsGt_def double_eval)
  show ?thesis using live mock by blast
qed

end
